theory Spec2Isabelle
  imports
    Main
    "HOL-Library.Char_ord"
    "HOL-Library.List_Lexorder"
    "HOL-Library.Product_Lexorder"
    "HOL-Library.Multiset"
begin

section \<open>JavaScript values as the collector sees them\<close>

text \<open>
  The collector (\<^verbatim>\<open>lib/sqlite-collector.js\<close>) receives batches that went through
  \<^verbatim>\<open>JSON.parse\<close>, so a value is null, a boolean, a number, a string, an array or a plain
  object; \<^verbatim>\<open>undefined\<close> is what reading an absent property or index gives. An object
  is the list of its own enumerable properties in \<^verbatim>\<open>Object.keys\<close> order (each key
  once). Dates, regular expressions, functions and the other kinds that \<^verbatim>\<open>getValueType\<close>
  and \<^verbatim>\<open>serializeLiteralValue\<close> have branches for cannot come out of
  \<^verbatim>\<open>JSON.parse\<close>; those branches are left out. Numbers are integers here: no modelled
  operation computes with them, and their text form is produced by the host's
  \<^verbatim>\<open>JSON.stringify\<close>, which is a parameter below. A character of a
  \<^typ>\<open>string\<close> stands for one code unit.
\<close>

datatype jsval =
    Undefined
  | Null
  | Bool bool
  | Num int
  | Str string
  | Arr "jsval list"
  | Obj "(string \<times> jsval) list"

text \<open>\<^verbatim>\<open>typeof v\<close>.\<close>

fun typeof :: "jsval \<Rightarrow> string" where
  "typeof Undefined = ''undefined''"
| "typeof Null = ''object''"
| "typeof (Bool b) = ''boolean''"
| "typeof (Num n) = ''number''"
| "typeof (Str s) = ''string''"
| "typeof (Arr xs) = ''object''"
| "typeof (Obj kvs) = ''object''"

text \<open>Truthiness, as used by \<^verbatim>\<open>!x\<close>, \<^verbatim>\<open>x || y\<close>, \<^verbatim>\<open>x && y\<close> and \<^verbatim>\<open>x ? a : b\<close>.\<close>

fun truthy :: "jsval \<Rightarrow> bool" where
  "truthy Undefined = False"
| "truthy Null = False"
| "truthy (Bool b) = b"
| "truthy (Num n) = (n \<noteq> 0)"
| "truthy (Str s) = (s \<noteq> [])"
| "truthy v = True"

text \<open>\<^verbatim>\<open>a || b\<close>.\<close>

definition js_or :: "jsval \<Rightarrow> jsval \<Rightarrow> jsval" where
  "js_or a b = (if truthy a then a else b)"

text \<open>\<^verbatim>\<open>Array.isArray(v)\<close>.\<close>

fun isArray :: "jsval \<Rightarrow> bool" where
  "isArray (Arr xs) = True"
| "isArray v = False"

text \<open>Decimal text of a number, as a template literal prints an integer.\<close>

fun string_of_nat :: "nat \<Rightarrow> string" where
  "string_of_nat n =
     (if n < 10 then [''0123456789'' ! n]
      else string_of_nat (n div 10) @ [''0123456789'' ! (n mod 10)])"

declare string_of_nat.simps [simp del]

definition string_of_int :: "int \<Rightarrow> string" where
  "string_of_int i = (if i < 0 then CHR ''-'' # string_of_nat (nat (- i)) else string_of_nat (nat i))"

text \<open>\<^verbatim>\<open>xs.join(sep)\<close> on an array of strings.\<close>

fun join :: "string \<Rightarrow> string list \<Rightarrow> string" where
  "join sep [] = []"
| "join sep [x] = x"
| "join sep (x # y # ys) = x @ sep @ join sep (y # ys)"

text \<open>
  \<^verbatim>\<open>getValueType\<close>: null, undefined and arrays are named first, everything else is
  its \<^verbatim>\<open>typeof\<close>.
\<close>

fun getValueType :: "jsval \<Rightarrow> string" where
  "getValueType Null = ''null''"
| "getValueType Undefined = ''undefined''"
| "getValueType (Arr xs) = ''array''"
| "getValueType v = typeof v"

text \<open>
  \<^verbatim>\<open>Object.keys(v)\<close> for the values that reach it (truthy, \<^verbatim>\<open>typeof\<close> object, not an
  array), which are the plain objects.
\<close>

fun Object_keys :: "jsval \<Rightarrow> string list" where
  "Object_keys (Obj kvs) = map fst kvs"
| "Object_keys v = []"

text \<open>
  \<^verbatim>\<open>obj[key]\<close> for a string key. Only own properties of plain objects are modelled;
  a missing property reads as \<^verbatim>\<open>undefined\<close>.
\<close>

fun js_get :: "jsval \<Rightarrow> string \<Rightarrow> jsval" where
  "js_get (Obj kvs) k = (case map_of kvs k of Some v \<Rightarrow> v | None \<Rightarrow> Undefined)"
| "js_get v k = Undefined"

section \<open>The host functions the collector calls\<close>

text \<open>
  \<^verbatim>\<open>JSON.stringify\<close> and the MD5 digest of \<^verbatim>\<open>crypto\<close> are built into the host.
  They are parameters of the model: \<^term>\<open>json_text h v\<close> is the text of a value that is
  not \<^verbatim>\<open>undefined\<close>, \<^term>\<open>md5_hex h s\<close> the hexadecimal MD5 digest of a string.
\<close>

record host =
  json_text :: "jsval \<Rightarrow> string"
  md5_hex :: "string \<Rightarrow> string"

text \<open>\<^verbatim>\<open>JSON.stringify(v)\<close>: \<^verbatim>\<open>undefined\<close> has no text, every other value has one.\<close>

definition JSON_stringify :: "host \<Rightarrow> jsval \<Rightarrow> string option" where
  "JSON_stringify h v = (if v = Undefined then None else Some (json_text h v))"

section \<open>Object shapes\<close>

record shape =
  signature :: string
  propertyNames :: string
  propertyTypes :: string

text \<open>
  The dictionary \<^verbatim>\<open>propertyTypes\<close> starts as the object literal \<^verbatim>\<open>{}\<close> and holds
  strings. Its own properties are kept in the order in which they were first assigned.
  The name \<^verbatim>\<open>__proto__\<close> never becomes a property of it: that name is the accessor of
  \<^verbatim>\<open>Object.prototype\<close>, whose setter ignores a value that is neither an object nor
  null, and whose getter returns the prototype, which a template prints as
  \<^verbatim>\<open>[object Object]\<close>. \<open>dict_assign d key v\<close> is \<^verbatim>\<open>d[key] = v\<close> for a string
  \<open>v\<close>, and \<open>dict_text d key\<close> is the text of \<^verbatim>\<open>d[key]\<close> in a template, for the
  name \<^verbatim>\<open>__proto__\<close> and for the names that have been assigned.
\<close>

definition dict_assign :: "(string \<times> string) list \<Rightarrow> string \<Rightarrow> string \<Rightarrow> (string \<times> string) list" where
  "dict_assign d key v =
     (if key = ''__proto__'' then d
      else if key \<in> set (map fst d) then map (\<lambda>(k, w). if k = key then (k, v) else (k, w)) d
      else d @ [(key, v)])"

definition dict_text :: "(string \<times> string) list \<Rightarrow> string \<Rightarrow> string" where
  "dict_text d key =
     (if key = ''__proto__'' then ''[object Object]''
      else case map_of d key of Some v \<Rightarrow> v | None \<Rightarrow> ''undefined'')"

text \<open>
  \<^verbatim>\<open>analyzeObjectShape(obj)\<close>. The loop assigns the type of \<^verbatim>\<open>obj[key]\<close> to
  \<^verbatim>\<open>propertyTypes[key]\<close> for the sorted keys; the signature reads the dictionary back,
  and the dictionary is handed to \<^verbatim>\<open>JSON.stringify\<close> with its own properties.
  \<^verbatim>\<open>keys.sort()\<close> is the default sort, which compares strings by code units.
\<close>

definition analyzeObjectShape :: "host \<Rightarrow> jsval \<Rightarrow> shape option" where
  "analyzeObjectShape h obj =
     (if \<not> truthy obj \<or> typeof obj \<noteq> ''object'' \<or> isArray obj then None
      else
        let keys = Object_keys obj in
        if length keys = 0 \<or> length keys > 20 then None
        else
          let sortedKeys = sort keys;
              propTypes = fold (\<lambda>key d. dict_assign d key (getValueType (js_get obj key))) sortedKeys []
          in Some \<lparr> signature = join '','' (map (\<lambda>key. key @ '':'' @ dict_text propTypes key) sortedKeys),
                    propertyNames = join '','' sortedKeys,
                    propertyTypes = json_text h (Obj (map (\<lambda>(key, ty). (key, Str ty)) propTypes)) \<rparr>)"


section \<open>More of JavaScript: conversion to text, indexing, iteration\<close>

text \<open>
  The text a template literal gives for a value: \<^verbatim>\<open>`${v}`\<close>. An array prints its elements
  separated by commas, with nothing for null and undefined elements.
\<close>

fun js_to_string :: "jsval \<Rightarrow> string" where
  "js_to_string Undefined = ''undefined''"
| "js_to_string Null = ''null''"
| "js_to_string (Bool b) = (if b then ''true'' else ''false'')"
| "js_to_string (Num n) = string_of_int n"
| "js_to_string (Str s) = s"
| "js_to_string (Arr xs) =
     join '','' (map (\<lambda>x. if x = Null \<or> x = Undefined then [] else js_to_string x) xs)"
| "js_to_string (Obj kvs) = ''[object Object]''"

text \<open>
  \<^verbatim>\<open>v[i]\<close> for a number \<open>i\<close>. The collector indexes only values it has tested
  (an array entry, a truthy source location), so null and undefined do not occur here.
\<close>

fun js_index :: "jsval \<Rightarrow> nat \<Rightarrow> jsval" where
  "js_index (Arr xs) i = (if i < length xs then xs ! i else Undefined)"
| "js_index (Str s) i = (if i < length s then Str [s ! i] else Undefined)"
| "js_index (Obj kvs) i = js_get (Obj kvs) (string_of_nat i)"
| "js_index v i = Undefined"

text \<open>
  The elements a \<^verbatim>\<open>for ... of\<close> loop or an array pattern draws from a value: arrays and
  strings are iterable, anything else is a \<^verbatim>\<open>TypeError\<close> (here \<^term>\<open>None\<close>).
\<close>

fun js_iter :: "jsval \<Rightarrow> jsval list option" where
  "js_iter (Arr xs) = Some xs"
| "js_iter (Str s) = Some (map (\<lambda>c. Str [c]) s)"
| "js_iter v = None"

text \<open>\<^verbatim>\<open>s.includes(sub)\<close>.\<close>

fun js_includes :: "string \<Rightarrow> string \<Rightarrow> bool" where
  "js_includes [] sub = (sub = [])"
| "js_includes (c # cs) sub = (take (length sub) (c # cs) = sub \<or> js_includes cs sub)"

section \<open>The store\<close>

text \<open>
  The five tables of \<^verbatim>\<open>initializeSchema\<close>. A column that the collector fills from a
  value of the batch holds an SQL value; a column it fills from a string or a number it has
  computed itself has that type. Only the entity's \<^verbatim>\<open>id\<close> is ever read back, so the
  surrogate ids of the other tables are left out. SQLite's conversion of a stored value to
  the affinity of its column is not modelled: a bound number stays a number.
\<close>

datatype sqlval = SNull | SInt int | SText string

record entity_row =
  e_id :: nat
  e_filename :: sqlval
  e_entity_name :: sqlval
  e_entity_type :: sqlval
  e_offset_position :: sqlval
  e_line_number :: sqlval
  e_column_number :: sqlval
  e_first_seen :: nat
  e_last_seen :: nat
  e_observation_count :: nat

record value_row =
  v_entity_id :: nat
  v_value_type :: string
  v_literal_value :: string
  v_value_hash :: string
  v_context :: sqlval
  v_observation_count :: nat
  v_first_seen :: nat
  v_last_seen :: nat
  v_source_location :: sqlval

record string_row =
  s_entity_id :: nat
  s_string_value :: string
  s_observation_count :: nat
  s_context :: string
  s_first_seen :: nat
  s_last_seen :: nat

record shape_row =
  o_entity_id :: nat
  o_shape_signature :: string
  o_property_names :: string
  o_property_types :: string
  o_observation_count :: nat
  o_first_seen :: nat
  o_last_seen :: nat

record hof_row =
  h_callback_entity_id :: nat
  h_callee_name :: sqlval
  h_callee_arg_index :: sqlval
  h_source_filename :: sqlval
  h_first_seen :: nat
  h_last_seen :: nat
  h_observation_count :: nat

record store =
  entities :: "entity_row list"
  value_observations :: "value_row list"
  string_literals :: "string_row list"
  object_shapes :: "shape_row list"
  hof_relationships :: "hof_row list"
  next_entity_id :: nat

definition empty_store :: store where
  "empty_store = \<lparr> entities = [], value_observations = [], string_literals = [],
     object_shapes = [], hof_relationships = [], next_entity_id = 1 \<rparr>"

datatype js_error = TypeError | SqliteError

text \<open>
  Binding a statement parameter, as the database driver does it: a number, a string and
  null are bound, undefined is bound as NULL, and any other value is refused with a
  \<^verbatim>\<open>TypeError\<close>.
\<close>

fun bind :: "jsval \<Rightarrow> js_error + sqlval" where
  "bind (Num n) = Inr (SInt n)"
| "bind (Str s) = Inr (SText s)"
| "bind Null = Inr SNull"
| "bind Undefined = Inr SNull"
| "bind v = Inl TypeError"

text \<open>Two values of a UNIQUE column conflict when they are equal and not NULL.\<close>

definition sql_conflict :: "sqlval \<Rightarrow> sqlval \<Rightarrow> bool" where
  "sql_conflict a b = (a \<noteq> SNull \<and> a = b)"

text \<open>\<^verbatim>\<open>COALESCE(a, b)\<close>.\<close>

definition COALESCE :: "sqlval \<Rightarrow> sqlval \<Rightarrow> sqlval" where
  "COALESCE a b = (if a = SNull then b else a)"

subsection \<open>The prepared statements of \<^verbatim>\<open>processTypeData\<close>\<close>

text \<open>
  Each upsert either increments the count of the row that holds the key and refreshes its
  \<^verbatim>\<open>last_seen\<close>, or appends a row with count 1. The clock reading \<open>now\<close> stands
  for \<^verbatim>\<open>CURRENT_TIMESTAMP\<close>; one reading serves a whole batch.
\<close>

text \<open>
  \<^verbatim>\<open>INSERT ... ON CONFLICT (key) DO UPDATE SET ...\<close> on a table: when a row holds the key,
  the rows that hold it are updated; otherwise the new row is appended.
\<close>

definition on_conflict_update :: "('r \<Rightarrow> bool) \<Rightarrow> ('r \<Rightarrow> 'r) \<Rightarrow> 'r \<Rightarrow> 'r list \<Rightarrow> 'r list" where
  "on_conflict_update conflict update new rows =
     (if \<exists>r \<in> set rows. conflict r
      then map (\<lambda>r. if conflict r then update r else r) rows
      else rows @ [new])"

definition entity_conflict :: "sqlval \<Rightarrow> sqlval \<Rightarrow> entity_row \<Rightarrow> bool" where
  "entity_conflict fname off r =
     (sql_conflict fname (e_filename r) \<and> sql_conflict off (e_offset_position r))"

text \<open>
  \<^verbatim>\<open>upsertEntity.get(filename, offset)\<close>, with the \<^verbatim>\<open>RETURNING id\<close>: the id of the row
  that holds the key, or the next id of the table for a new row.
\<close>

definition upsertEntity :: "nat \<Rightarrow> sqlval \<Rightarrow> sqlval \<Rightarrow> store \<Rightarrow> nat \<times> store" where
  "upsertEntity now fname off s =
     ((case find (entity_conflict fname off) (entities s) of
         Some r \<Rightarrow> e_id r
       | None \<Rightarrow> next_entity_id s),
      s\<lparr> entities := on_conflict_update (entity_conflict fname off)
             (\<lambda>r. r\<lparr> e_observation_count := e_observation_count r + 1, e_last_seen := now \<rparr>)
             \<lparr> e_id = next_entity_id s, e_filename = fname, e_entity_name = SNull,
               e_entity_type = SText ''unknown'', e_offset_position = off,
               e_line_number = SNull, e_column_number = SNull,
               e_first_seen = now, e_last_seen = now, e_observation_count = 1 \<rparr>
             (entities s),
         next_entity_id := (case find (entity_conflict fname off) (entities s) of
                              Some r \<Rightarrow> next_entity_id s
                            | None \<Rightarrow> next_entity_id s + 1) \<rparr>)"

text \<open>The \<^verbatim>\<open>UPDATE entities SET ... WHERE id = ?\<close> of \<^verbatim>\<open>processTypeData\<close>.\<close>

definition updateEntity :: "sqlval \<Rightarrow> sqlval \<Rightarrow> sqlval \<Rightarrow> sqlval \<Rightarrow> nat \<Rightarrow> store \<Rightarrow> store" where
  "updateEntity fname line col ctx ident s =
     s\<lparr> entities := map (\<lambda>r. if e_id r = ident
           then r\<lparr> e_entity_name := COALESCE fname (e_entity_name r),
                   e_line_number := COALESCE line (e_line_number r),
                   e_column_number := COALESCE col (e_column_number r),
                   e_entity_type := ctx \<rparr>
           else r) (entities s) \<rparr>"

definition value_conflict :: "nat \<Rightarrow> string \<Rightarrow> sqlval \<Rightarrow> value_row \<Rightarrow> bool" where
  "value_conflict ident hash ctx r =
     (v_entity_id r = ident \<and> v_value_hash r = hash \<and> sql_conflict ctx (v_context r))"

definition upsertValueObservation ::
  "nat \<Rightarrow> nat \<Rightarrow> string \<Rightarrow> string \<Rightarrow> string \<Rightarrow> sqlval \<Rightarrow> sqlval \<Rightarrow> store \<Rightarrow> store" where
  "upsertValueObservation now ident vtype literal hash ctx loc s =
     s\<lparr> value_observations := on_conflict_update (value_conflict ident hash ctx)
          (\<lambda>r. r\<lparr> v_observation_count := v_observation_count r + 1, v_last_seen := now \<rparr>)
          \<lparr> v_entity_id = ident, v_value_type = vtype, v_literal_value = literal,
            v_value_hash = hash, v_context = ctx, v_observation_count = 1,
            v_first_seen = now, v_last_seen = now, v_source_location = loc \<rparr>
          (value_observations s) \<rparr>"

definition string_conflict :: "nat \<Rightarrow> string \<Rightarrow> string \<Rightarrow> string_row \<Rightarrow> bool" where
  "string_conflict ident str ctx r =
     (s_entity_id r = ident \<and> s_string_value r = str \<and> s_context r = ctx)"

definition upsertStringLiteral :: "nat \<Rightarrow> nat \<Rightarrow> string \<Rightarrow> string \<Rightarrow> store \<Rightarrow> store" where
  "upsertStringLiteral now ident str ctx s =
     s\<lparr> string_literals := on_conflict_update (string_conflict ident str ctx)
          (\<lambda>r. r\<lparr> s_observation_count := s_observation_count r + 1, s_last_seen := now \<rparr>)
          \<lparr> s_entity_id = ident, s_string_value = str, s_observation_count = 1,
            s_context = ctx, s_first_seen = now, s_last_seen = now \<rparr>
          (string_literals s) \<rparr>"

definition shape_conflict :: "nat \<Rightarrow> string \<Rightarrow> shape_row \<Rightarrow> bool" where
  "shape_conflict ident sig r = (o_entity_id r = ident \<and> o_shape_signature r = sig)"

definition upsertObjectShape :: "nat \<Rightarrow> nat \<Rightarrow> string \<Rightarrow> string \<Rightarrow> string \<Rightarrow> store \<Rightarrow> store" where
  "upsertObjectShape now ident sig names types s =
     s\<lparr> object_shapes := on_conflict_update (shape_conflict ident sig)
          (\<lambda>r. r\<lparr> o_observation_count := o_observation_count r + 1, o_last_seen := now \<rparr>)
          \<lparr> o_entity_id = ident, o_shape_signature = sig, o_property_names = names,
            o_property_types = types, o_observation_count = 1,
            o_first_seen = now, o_last_seen = now \<rparr>
          (object_shapes s) \<rparr>"

definition hof_conflict :: "nat \<Rightarrow> sqlval \<Rightarrow> sqlval \<Rightarrow> hof_row \<Rightarrow> bool" where
  "hof_conflict ident callee idx r =
     (h_callback_entity_id r = ident \<and> sql_conflict callee (h_callee_name r)
      \<and> sql_conflict idx (h_callee_arg_index r))"

text \<open>
  \<^verbatim>\<open>callee_name\<close> and \<^verbatim>\<open>callee_arg_index\<close> are declared \<^verbatim>\<open>NOT NULL\<close>: the
  statement fails on a NULL in either.
\<close>

definition upsertHofRelationship ::
  "nat \<Rightarrow> nat \<Rightarrow> sqlval \<Rightarrow> sqlval \<Rightarrow> sqlval \<Rightarrow> store \<Rightarrow> js_error + store" where
  "upsertHofRelationship now ident callee idx fname s =
     (if callee = SNull \<or> idx = SNull then Inl SqliteError
      else Inr (s\<lparr> hof_relationships := on_conflict_update (hof_conflict ident callee idx)
          (\<lambda>r. r\<lparr> h_observation_count := h_observation_count r + 1, h_last_seen := now \<rparr>)
          \<lparr> h_callback_entity_id = ident, h_callee_name = callee,
            h_callee_arg_index = idx, h_source_filename = fname,
            h_first_seen = now, h_last_seen = now, h_observation_count = 1 \<rparr>
          (hof_relationships s) \<rparr>))"

section \<open>The collector\<close>

text \<open>
  \<^verbatim>\<open>serializeLiteralValue(value, valueType)\<close>. The \<^verbatim>\<open>try\<close> block fails where a
  method is called on a value that lacks it (\<^verbatim>\<open>slice\<close> on the \<^verbatim>\<open>undefined\<close> that
  \<^verbatim>\<open>JSON.stringify\<close> gave, or on a value that is not an array); the \<^verbatim>\<open>catch\<close>
  block then describes the failure. The branches for dates, regular expressions and
  functions are left out with those kinds of value.
\<close>

definition serialization_failed :: "host \<Rightarrow> string \<Rightarrow> string option" where
  "serialization_failed h valueType =
     JSON_stringify h (Obj [(''_error'', Str ''serialization_failed''), (''type'', Str valueType)])"

definition serializeLiteralValue :: "host \<Rightarrow> jsval \<Rightarrow> string \<Rightarrow> string option" where
  "serializeLiteralValue h val valueType =
     (if valueType \<in> {''string'', ''number'', ''boolean'', ''null'', ''undefined''}
      then JSON_stringify h val
      else if valueType = ''object''
      then (case JSON_stringify h val of
              Some text \<Rightarrow> Some (take 1000 text)
            | None \<Rightarrow> serialization_failed h valueType)
      else if valueType = ''array''
      then (case val of
              Arr arr \<Rightarrow> JSON_stringify h (Arr (take 10 arr))
            | Str str \<Rightarrow> JSON_stringify h (Str (take 10 str))
            | _ \<Rightarrow> serialization_failed h valueType)
      else JSON_stringify h (Obj [(''_type'', Str valueType), (''value'', Str (js_to_string val))]))"

text \<open>\<^verbatim>\<open>hashValue(literalValue)\<close>: the first 8 characters of the hexadecimal MD5 digest.\<close>

definition hashValue :: "host \<Rightarrow> string \<Rightarrow> string" where
  "hashValue h literalValue = take 8 (md5_hex h literalValue)"

text \<open>\<^verbatim>\<open>/^\d+$/.test(s)\<close>.\<close>

definition all_digits :: "string \<Rightarrow> bool" where
  "all_digits s = (s \<noteq> [] \<and> (\<forall>c \<in> set s. c \<in> set ''0123456789''))"

text \<open>
  \<^verbatim>\<open>isEnumCandidateString(value)\<close>; \<^verbatim>\<open>value.split(' ').length\<close> is one more than the
  number of spaces.
\<close>

definition isEnumCandidateString :: "string \<Rightarrow> bool" where
  "isEnumCandidateString s =
     (if length s = 0 \<or> length s > 50 then False
      else if js_includes s ''/'' \<or> js_includes s [CHR 0x5C] then False
      else if js_includes s ''http'' then False
      else if all_digits s then False
      else if js_includes s '' '' \<and> length (filter (\<lambda>c. c = CHR '' '') s) + 1 > 3 then False
      else True)"

text \<open>
  The context of a value observation:
  \<^verbatim>\<open>functionName ? `${context}_in_${functionName}` : context\<close>.
\<close>

definition enhancedContext :: "jsval \<Rightarrow> jsval \<Rightarrow> jsval" where
  "enhancedContext functionName ctx =
     (if truthy functionName
      then Str (js_to_string ctx @ ''_in_'' @ js_to_string functionName)
      else ctx)"

text \<open>
  A step of the collector either throws, leaving the store as far as it has been written,
  or finishes: the result is the error, if any, and the store. \<open>and_then\<close> runs the
  next step unless the previous one threw.
\<close>

type_synonym outcome = "js_error option \<times> store"

definition and_then :: "outcome \<Rightarrow> (store \<Rightarrow> outcome) \<Rightarrow> outcome" where
  "and_then r f = (case r of (Some e, s) \<Rightarrow> (Some e, s) | (None, s) \<Rightarrow> f s)"

text \<open>
  \<^verbatim>\<open>processLiteralValue\<close>. Hashing the \<^verbatim>\<open>undefined\<close> that serialisation may give
  throws; the driver binds every parameter of \<^verbatim>\<open>upsertValueObservation\<close> before it
  writes, and throws on one it cannot bind.
\<close>

definition processLiteralValue ::
  "host \<Rightarrow> nat \<Rightarrow> nat \<Rightarrow> jsval \<Rightarrow> jsval \<Rightarrow> jsval \<Rightarrow> jsval \<Rightarrow> store \<Rightarrow> outcome" where
  "processLiteralValue h now entityId val sourceLocation functionName ctx s =
     (let valueType = getValueType val in
      case serializeLiteralValue h val valueType of
        None \<Rightarrow> (Some TypeError, s)
      | Some literalValue \<Rightarrow>
          (let valueHash = hashValue h literalValue in
           case (bind (enhancedContext functionName ctx), bind sourceLocation) of
             (Inr c, Inr loc) \<Rightarrow>
               (let s1 = upsertValueObservation now entityId valueType literalValue valueHash c loc s;
                    s2 = (case val of
                            Str str \<Rightarrow>
                              if valueType = ''string'' \<and> isEnumCandidateString str
                              then upsertStringLiteral now entityId str ''parameter'' s1
                              else s1
                          | _ \<Rightarrow> s1);
                    s3 = (if valueType = ''object'' \<and> truthy val \<and> typeof val = ''object''
                          then (case analyzeObjectShape h val of
                                  Some sh \<Rightarrow> upsertObjectShape now entityId (signature sh)
                                               (propertyNames sh) (propertyTypes sh) s2
                                | None \<Rightarrow> s2)
                          else s2)
                in (None, s3))
           | _ \<Rightarrow> (Some TypeError, s)))"

text \<open>
  The text stored as \<^verbatim>\<open>source_location\<close>:
  \<^verbatim>\<open>sourceLocation ? `${sourceLocation[0]}:${sourceLocation[1]}` :
     (lineNumber !== null ? `${lineNumber}:${columnNumber || 0}` : null)\<close>.
\<close>

definition sourceLocationStr :: "jsval \<Rightarrow> jsval \<Rightarrow> jsval \<Rightarrow> jsval" where
  "sourceLocationStr sourceLocation lineNumber columnNumber =
     (if truthy sourceLocation
      then Str (js_to_string (js_index sourceLocation 0) @ '':'' @ js_to_string (js_index sourceLocation 1))
      else if lineNumber \<noteq> Null
      then Str (js_to_string lineNumber @ '':'' @ js_to_string (js_or columnNumber (Num 0)))
      else Null)"

text \<open>
  The loop \<^verbatim>\<open>for (const [rawValue, sourceLocation] of types)\<close> over the elements of
  \<^verbatim>\<open>types\<close>: each element is taken apart by an array pattern, which throws on an
  element that is not iterable; null and undefined values are passed over.
\<close>

fun processValues ::
  "host \<Rightarrow> nat \<Rightarrow> nat \<Rightarrow> jsval \<Rightarrow> jsval \<Rightarrow> jsval \<Rightarrow> jsval \<Rightarrow> jsval list \<Rightarrow> store \<Rightarrow> outcome" where
  "processValues h now entityId functionName lineNumber columnNumber ctx [] s = (None, s)"
| "processValues h now entityId functionName lineNumber columnNumber ctx (elem # rest) s =
     (case js_iter elem of
        None \<Rightarrow> (Some TypeError, s)
      | Some parts \<Rightarrow>
          (let rawValue = js_index (Arr parts) 0;
               sourceLocation = js_index (Arr parts) 1
           in and_then
                (if rawValue \<noteq> Undefined \<and> rawValue \<noteq> Null
                 then processLiteralValue h now entityId rawValue
                        (sourceLocationStr sourceLocation lineNumber columnNumber)
                        functionName ctx s
                 else (None, s))
                (processValues h now entityId functionName lineNumber columnNumber ctx rest)))"

text \<open>
  \<^verbatim>\<open>Array.isArray(entry) ? entry[i] : entry.name\<close>, for an entry that is not null or
  undefined.
\<close>

definition entry_field :: "jsval \<Rightarrow> nat \<Rightarrow> string \<Rightarrow> jsval" where
  "entry_field entry i name = (if isArray entry then js_index entry i else js_get entry name)"

text \<open>
  The statement \<^verbatim>\<open>if (functionName || lineNumber !== null) { ... updateEntity.run(...) }\<close>:
  the driver binds the four values before it writes.
\<close>

definition updateEntityStep :: "jsval \<Rightarrow> jsval \<Rightarrow> jsval \<Rightarrow> jsval \<Rightarrow> nat \<Rightarrow> store \<Rightarrow> outcome" where
  "updateEntityStep functionName lineNumber columnNumber ctx entityId s =
     (if truthy functionName \<or> lineNumber \<noteq> Null
      then (case (bind functionName, bind lineNumber, bind columnNumber, bind ctx) of
              (Inr n, Inr l, Inr c, Inr t) \<Rightarrow> (None, updateEntity n l c t entityId s)
            | _ \<Rightarrow> (Some TypeError, s))
      else (None, s))"

text \<open>
  The statement
  \<^verbatim>\<open>if (metadata && metadata.calleeName && metadata.calleeArgIndex !== undefined)
     { upsertHofRelationship.run(entityId, metadata.calleeName, metadata.calleeArgIndex, filename) }\<close>.
\<close>

definition hofStep :: "nat \<Rightarrow> jsval \<Rightarrow> nat \<Rightarrow> sqlval \<Rightarrow> store \<Rightarrow> outcome" where
  "hofStep now metadata entityId fname s =
     (if truthy metadata \<and> truthy (js_get metadata ''calleeName'')
         \<and> js_get metadata ''calleeArgIndex'' \<noteq> Undefined
      then (case (bind (js_get metadata ''calleeName''), bind (js_get metadata ''calleeArgIndex'')) of
              (Inr callee, Inr idx) \<Rightarrow>
                (case upsertHofRelationship now entityId callee idx fname s of
                   Inl e \<Rightarrow> (Some e, s)
                 | Inr s' \<Rightarrow> (None, s'))
            | _ \<Rightarrow> (Some TypeError, s))
      else (None, s))"

text \<open>
  The body of the \<^verbatim>\<open>try\<close> block that \<^verbatim>\<open>processTypeData\<close> runs for one entry.
  Reading a property of a null or undefined entry throws before anything is written; an
  entry without a file name is passed over.
\<close>

definition processEntry :: "host \<Rightarrow> nat \<Rightarrow> jsval \<Rightarrow> store \<Rightarrow> outcome" where
  "processEntry h now entry s =
     (if entry = Null \<or> entry = Undefined then (Some TypeError, s)
      else
        let filename = entry_field entry 0 ''filename'';
            offset = entry_field entry 1 ''offset'';
            types = entry_field entry 2 ''types'';
            metadata = entry_field entry 3 ''metadata''
        in
        if \<not> truthy filename then (None, s)
        else
          let parsed = (truthy metadata \<and> typeof metadata = ''object'');
              functionName = (if parsed then js_or (js_get metadata ''functionName'') Null else Null);
              lineNumber = (if parsed then js_or (js_get metadata ''lineNumber'') Null else Null);
              columnNumber = (if parsed then js_or (js_get metadata ''columnNumber'') Null else Null);
              ctx = (if parsed then js_or (js_get metadata ''context'') (Str ''unknown'')
                     else Str ''unknown'')
          in
          case (bind filename, bind offset) of
            (Inr fname, Inr off) \<Rightarrow>
              (let (entityId, s1) = upsertEntity now fname off s in
               and_then (updateEntityStep functionName lineNumber columnNumber ctx entityId s1)
                 (\<lambda>s2. and_then (hofStep now metadata entityId fname s2)
                    (\<lambda>s3. case js_iter types of
                            None \<Rightarrow> (Some TypeError, s3)
                          | Some elems \<Rightarrow>
                              processValues h now entityId functionName lineNumber columnNumber
                                ctx elems s3)))
          | _ \<Rightarrow> (Some TypeError, s))"

text \<open>
  \<^verbatim>\<open>processTypeData(entries)\<close>: one transaction around the loop over the entries. The
  \<^verbatim>\<open>catch\<close> block inside the loop logs the error of an entry and the loop goes on, so
  what an entry wrote before it threw stays. Only a batch that cannot be iterated makes the
  transaction function throw, which rolls back to the store at the start.
\<close>

definition processTypeData :: "host \<Rightarrow> nat \<Rightarrow> jsval \<Rightarrow> store \<Rightarrow> outcome" where
  "processTypeData h now entries s =
     (case js_iter entries of
        None \<Rightarrow> (Some TypeError, s)
      | Some es \<Rightarrow> (None, fold (\<lambda>entry st. snd (processEntry h now entry st)) es s))"

section \<open>The query engine\<close>

text \<open>
  \<^verbatim>\<open>GROUP BY\<close>: the rows with the same key form one group; the groups come in the order
  in which their keys first occur, and no group is empty.
\<close>

function group_by :: "('a \<Rightarrow> 'k) \<Rightarrow> 'a list \<Rightarrow> ('k \<times> 'a list) list" where
  "group_by key [] = []"
| "group_by key (x # xs) =
     (key x, x # filter (\<lambda>y. key y = key x) xs) # group_by key (filter (\<lambda>y. key y \<noteq> key x) xs)"
  by pat_completeness auto
termination
  by (relation "measure (\<lambda>(key, xs). length xs)") (auto simp: less_Suc_eq_le)

text \<open>\<^verbatim>\<open>LIMIT lim OFFSET off\<close>: a negative limit is no limit, a negative offset is 0.\<close>

definition sql_limit :: "int \<Rightarrow> int \<Rightarrow> 'a list \<Rightarrow> 'a list" where
  "sql_limit lim off xs =
     (let ys = drop (nat off) xs in if lim < 0 then ys else take (nat lim) ys)"

subsection \<open>Annotation candidates (\<^verbatim>\<open>getAnnotationCandidates\<close>)\<close>

record annotation_row =
  a_filename :: sqlval
  a_offset_position :: sqlval
  a_entity_name :: sqlval
  a_value_type :: string
  a_unique_values :: nat
  a_total_observations :: nat
  a_example_values :: string
  a_annotation_type :: string

text \<open>
  The \<^verbatim>\<open>CASE\<close> that names the annotation type of a group, from the group's value type,
  its \<^verbatim>\<open>COUNT(DISTINCT v.literal_value)\<close> and its \<^verbatim>\<open>COUNT(DISTINCT v.value_type)\<close>.
\<close>

definition annotation_case :: "string \<Rightarrow> nat \<Rightarrow> nat \<Rightarrow> string" where
  "annotation_case value_type unique_values distinct_types =
     (if value_type = ''string'' \<and> 2 \<le> unique_values \<and> unique_values \<le> 10 then ''ENUM_CANDIDATE''
      else if value_type = ''object'' then ''INTERFACE_CANDIDATE''
      else if value_type = ''number'' \<and> unique_values < 10 then ''LITERAL_TYPE_CANDIDATE''
      else if distinct_types > 1 then ''UNION_CANDIDATE''
      else ''SIMPLE_TYPE'')"

text \<open>The \<^verbatim>\<open>CASE\<close> of the \<^verbatim>\<open>ORDER BY\<close> clause.\<close>

definition annotation_rank :: "string \<Rightarrow> nat" where
  "annotation_rank t =
     (if t = ''ENUM_CANDIDATE'' then 1
      else if t = ''INTERFACE_CANDIDATE'' then 2
      else if t = ''UNION_CANDIDATE'' then 3
      else if t = ''LITERAL_TYPE_CANDIDATE'' then 4
      else 5)"

text \<open>
  The rows of \<^verbatim>\<open>entities e JOIN value_observations v ON e.id = v.entity_id
  WHERE v.value_type != 'undefined'\<close>.
\<close>

definition annotation_join :: "store \<Rightarrow> (entity_row \<times> value_row) list" where
  "annotation_join s =
     [(e, v). e \<leftarrow> entities s, v \<leftarrow> value_observations s,
              e_id e = v_entity_id v, v_value_type v \<noteq> ''undefined'']"

text \<open>
  One result row per group of \<^verbatim>\<open>GROUP BY e.id, v.value_type\<close>. The columns of the
  entity are read from a row of the group; all rows of a group have the same entity, the id
  being the primary key. The column \<^verbatim>\<open>example_values\<close> joins the distinct literal
  values of the group, each cut to 40 characters and \<^verbatim>\<open>...\<close> when it is longer.
\<close>

definition example_value :: "string \<Rightarrow> string" where
  "example_value literal_value =
     (if length literal_value > 40 then take 40 literal_value @ ''...'' else literal_value)"

definition annotation_row_of :: "entity_row \<times> value_row \<Rightarrow> (entity_row \<times> value_row) list \<Rightarrow> annotation_row" where
  "annotation_row_of first rows =
     (let unique_values = length (remdups (map (\<lambda>(e, v). v_literal_value v) rows));
          distinct_types = length (remdups (map (\<lambda>(e, v). v_value_type v) rows))
      in \<lparr> a_filename = e_filename (fst first),
            a_offset_position = e_offset_position (fst first),
            a_entity_name = e_entity_name (fst first),
            a_value_type = v_value_type (snd first),
            a_unique_values = unique_values,
            a_total_observations = sum_list (map (\<lambda>(e, v). v_observation_count v) rows),
            a_example_values =
              join '' | '' (remdups (map (\<lambda>(e, v). example_value (v_literal_value v)) rows)),
            a_annotation_type = annotation_case (v_value_type (snd first)) unique_values distinct_types \<rparr>)"

definition annotation_groups :: "store \<Rightarrow> annotation_row list" where
  "annotation_groups s =
     concat (map (\<lambda>(k, rows). case rows of [] \<Rightarrow> [] | first # rest \<Rightarrow> [annotation_row_of first rows])
                 (group_by (\<lambda>(e, v). (e_id e, v_value_type v)) (annotation_join s)))"

text \<open>
  The rows the statement describes: the groups that pass
  \<^verbatim>\<open>HAVING total_observations >= ?\<close>, ordered by the rank of the annotation type and
  then by descending total.
\<close>

definition annotation_rows :: "store \<Rightarrow> nat \<Rightarrow> annotation_row list" where
  "annotation_rows s minObservations =
     sort_key (\<lambda>r. (annotation_rank (a_annotation_type r), - int (a_total_observations r)))
       (filter (\<lambda>r. a_total_observations r \<ge> minObservations) (annotation_groups s))"

text \<open>
  \<^verbatim>\<open>db.prepare(query)\<close> compiles the statement before any row is read, and SQLite
  refuses a statement in which an aggregate function with \<^verbatim>\<open>DISTINCT\<close> has a number
  of arguments other than one (\<^verbatim>\<open>DISTINCT aggregates must have exactly one argument\<close>);
  the driver throws the error. A statement is given here by its aggregate calls: the
  function, whether it has \<^verbatim>\<open>DISTINCT\<close>, and the number of its arguments.
\<close>

record aggregate_call =
  g_function :: string
  g_distinct :: bool
  g_arguments :: nat

definition prepare :: "aggregate_call list \<Rightarrow> js_error option" where
  "prepare calls =
     (if list_ex (\<lambda>c. g_distinct c \<and> g_arguments c \<noteq> 1) calls then Some SqliteError else None)"

text \<open>
  The aggregate calls of the statement of \<^verbatim>\<open>getAnnotationCandidates\<close>, in the order
  in which they stand in it: \<^verbatim>\<open>COUNT(DISTINCT v.literal_value)\<close>,
  \<^verbatim>\<open>SUM(v.observation_count)\<close>,
  \<^verbatim>\<open>GROUP_CONCAT(DISTINCT CASE ... END, ' | ')\<close> with its separator as second
  argument, and the three \<^verbatim>\<open>COUNT(DISTINCT ...)\<close> of the \<^verbatim>\<open>CASE\<close>.
\<close>

definition annotation_aggregates :: "aggregate_call list" where
  "annotation_aggregates =
     [\<lparr> g_function = ''COUNT'', g_distinct = True, g_arguments = 1 \<rparr>,
      \<lparr> g_function = ''SUM'', g_distinct = False, g_arguments = 1 \<rparr>,
      \<lparr> g_function = ''GROUP_CONCAT'', g_distinct = True, g_arguments = 2 \<rparr>,
      \<lparr> g_function = ''COUNT'', g_distinct = True, g_arguments = 1 \<rparr>,
      \<lparr> g_function = ''COUNT'', g_distinct = True, g_arguments = 1 \<rparr>,
      \<lparr> g_function = ''COUNT'', g_distinct = True, g_arguments = 1 \<rparr>]"

text \<open>
  \<^verbatim>\<open>getAnnotationCandidates(minObservations)\<close>:
  \<^verbatim>\<open>this.db.prepare(query).all(minObservations)\<close>, which throws when the statement is
  refused and returns the rows otherwise.
\<close>

definition getAnnotationCandidates :: "store \<Rightarrow> nat \<Rightarrow> js_error + annotation_row list" where
  "getAnnotationCandidates s minObservations =
     (case prepare annotation_aggregates of
        Some e \<Rightarrow> Inl e
      | None \<Rightarrow> Inr (annotation_rows s minObservations))"

subsection \<open>Function calls (\<^verbatim>\<open>getFunctionCalls\<close>)\<close>

record call_row =
  c_filename :: sqlval
  c_entity_name :: sqlval
  c_offset_position :: sqlval
  c_line_number :: sqlval
  c_column_number :: sqlval
  c_observation_count :: nat
  c_first_seen :: nat
  c_last_seen :: nat
  c_value_type :: string
  c_literal_value :: string
  c_call_count :: nat

record pagination =
  p_offset :: int
  p_pageSize :: int
  p_total :: nat
  p_hasMore :: bool

record calls_result =
  calls :: "call_row list"
  page :: pagination
  filter_filepath :: "string option"
  filter_functionName :: "string option"

text \<open>
  A filter of the request is a string or absent, and counts when it is a non-empty string.
  \<^verbatim>\<open>LIKE\<close> is the store's operator and a parameter here: \<open>like p v\<close> says whether the
  value \<open>v\<close> matches the pattern \<open>p\<close>.
\<close>

definition given :: "string option \<Rightarrow> bool" where
  "given x = (case x of None \<Rightarrow> False | Some str \<Rightarrow> str \<noteq> [])"

definition or_null :: "string option \<Rightarrow> string option" where
  "or_null x = (if given x then x else None)"

definition calls_where ::
  "(string \<Rightarrow> sqlval \<Rightarrow> bool) \<Rightarrow> string option \<Rightarrow> string option \<Rightarrow> entity_row \<times> value_row \<Rightarrow> bool" where
  "calls_where like filepath functionName ev =
     ((case filepath of
         None \<Rightarrow> True
       | Some p \<Rightarrow> if p = [] then True else like (''%'' @ p @ ''%'') (e_filename (fst ev)))
      \<and> (case functionName of
         None \<Rightarrow> True
       | Some f \<Rightarrow> if f = [] then True
                  else like (''%'' @ f @ ''%'') (e_entity_name (fst ev))
                       \<or> like (''%'' @ f @ ''%'') (SText (v_literal_value (snd ev)))))"

text \<open>
  The rows of the join that pass the filters; both statements select from them. A filter
  that is absent or empty adds no condition.
\<close>

definition calls_join ::
  "(string \<Rightarrow> sqlval \<Rightarrow> bool) \<Rightarrow> string option \<Rightarrow> string option \<Rightarrow> store \<Rightarrow> (entity_row \<times> value_row) list" where
  "calls_join like filepath functionName s =
     filter (calls_where like filepath functionName)
       [(e, vo). e \<leftarrow> entities s, vo \<leftarrow> value_observations s, e_id e = v_entity_id vo]"

definition call_row_of :: "entity_row \<times> value_row \<Rightarrow> (entity_row \<times> value_row) list \<Rightarrow> call_row" where
  "call_row_of first rows =
     \<lparr> c_filename = e_filename (fst first),
       c_entity_name = e_entity_name (fst first),
       c_offset_position = e_offset_position (fst first),
       c_line_number = e_line_number (fst first),
       c_column_number = e_column_number (fst first),
       c_observation_count = e_observation_count (fst first),
       c_first_seen = e_first_seen (fst first),
       c_last_seen = e_last_seen (fst first),
       c_value_type = v_value_type (snd first),
       c_literal_value = v_literal_value (snd first),
       c_call_count = length rows \<rparr>"

text \<open>
  All rows of the first statement before \<^verbatim>\<open>LIMIT\<close>: one per group of
  \<^verbatim>\<open>GROUP BY e.id, vo.value_type, vo.literal_value\<close>, ordered by
  \<^verbatim>\<open>e.last_seen DESC, call_count DESC\<close>.
\<close>

definition call_rows ::
  "(string \<Rightarrow> sqlval \<Rightarrow> bool) \<Rightarrow> string option \<Rightarrow> string option \<Rightarrow> store \<Rightarrow> call_row list" where
  "call_rows like filepath functionName s =
     sort_key (\<lambda>r. (- int (c_last_seen r), - int (c_call_count r)))
       (concat (map (\<lambda>(k, rows). case rows of [] \<Rightarrow> [] | first # rest \<Rightarrow> [call_row_of first rows])
          (group_by (\<lambda>(e, vo). (e_id e, v_value_type vo, v_literal_value vo))
             (calls_join like filepath functionName s))))"

text \<open>\<^verbatim>\<open>getFunctionCalls(collector, filepath, functionName, offset, pageSize)\<close>.\<close>

definition getFunctionCalls ::
  "(string \<Rightarrow> sqlval \<Rightarrow> bool) \<Rightarrow> store \<Rightarrow> string option \<Rightarrow> string option \<Rightarrow> int \<Rightarrow> int \<Rightarrow> calls_result" where
  "getFunctionCalls like s filepath functionName offset pageSize =
     (let rows = sql_limit pageSize offset (call_rows like filepath functionName s);
          total = length (remdups (map (\<lambda>(e, vo). e_id e) (calls_join like filepath functionName s)))
      in \<lparr> calls = rows,
            page = \<lparr> p_offset = offset, p_pageSize = pageSize, p_total = total,
                     p_hasMore = (offset + pageSize < int total) \<rparr>,
            filter_filepath = or_null filepath,
            filter_functionName = or_null functionName \<rparr>)"

section \<open>The AST instrumenter\<close>

text \<open>
  \<^verbatim>\<open>typewiz-enhanced/lib/ast-instrumenter.js\<close> works on the syntax tree that the parser
  returns. The tree is modelled with the node types the instrumenter looks at; every other
  node is \<open>Other\<close> with its type and its children in traversal order. A position is
  the \<^verbatim>\<open>start\<close> offset of a node and the line and column of \<^verbatim>\<open>loc.start\<close>, if
  the node has a \<^verbatim>\<open>loc\<close>. The key of a method is an identifier with its name, a literal
  with its value (a string, a number or a boolean; the value of a numeric literal is taken
  as an integer, as the numbers of the collector are), or another expression, which has
  neither a \<^verbatim>\<open>name\<close> nor a \<^verbatim>\<open>value\<close>.
\<close>

type_synonym pos = "nat \<times> (nat \<times> nat) option"

datatype method_key =
    KIdentifier string
  | KStringLiteral string
  | KNumericLiteral int
  | KBooleanLiteral bool
  | KOther

text \<open>The arguments of an injected call: literals, or the identifier of a parameter.\<close>

datatype literal = StringLiteral string | NumericLiteral int | BooleanLiteral bool

datatype twiz_arg = ArgIdentifier string | ArgStringLiteral string

text \<open>
  An injected statement is
  \<^verbatim>\<open>try { $_$twiz(name, value, offset, filename, { metadata }) } catch (e) {}\<close>;
  the record holds the five arguments of the call.
\<close>

record twiz_call =
  t_name :: string
  t_value :: twiz_arg
  t_offset :: nat
  t_filename :: string
  t_metadata :: "(string \<times> literal) list"

datatype node =
    Identifier string bool pos
  | AssignmentPattern node node pos
  | ObjectPattern "node list" bool pos
  | ArrayPattern "node list" bool pos
  | RestElement node pos
  | TSParameterProperty node "string option" pos
  | FunctionDeclaration "string option" "node list" node pos
  | ClassMethod method_key string "node list" node pos
  | ObjectMethod method_key "node list" node pos
  | VariableDeclarator node "node option" pos
  | ArrowFunctionExpression "node list" node
  | CallExpression node "node list"
  | BlockStatement "node list"
  | ReturnStatement node
  | TwizTry twiz_call
  | Other string "node list"

text \<open>
  The fields above, in order: an identifier has its name and whether it carries a type
  annotation; an assignment pattern its left and right side; an object or array pattern its
  parts and whether it carries a type annotation; a rest element its argument; a parameter
  property its parameter and accessibility; a function declaration the name of its
  \<^verbatim>\<open>id\<close> (if any), its parameters and body; a method its key, (for a class method) its
  kind, its parameters and body; a declarator its \<^verbatim>\<open>id\<close> and \<^verbatim>\<open>init\<close>; an arrow function
  its parameters and body; a call its callee and arguments.
\<close>

fun isIdentifier :: "node \<Rightarrow> bool" where
  "isIdentifier (Identifier n a p) = True"
| "isIdentifier x = False"

fun isBlockStatement :: "node \<Rightarrow> bool" where
  "isBlockStatement (BlockStatement ss) = True"
| "isBlockStatement x = False"




























section \<open>Notions used to state the properties\<close>


text \<open>
  A host for the examples: it prints a value as a template literal would and pads the
  string to be hashed, so that the first 8 characters of a digest can be read off.
\<close>

definition example_host :: host where
  "example_host = \<lparr> json_text = js_to_string, md5_hex = (\<lambda>s. s @ ''00000000'') \<rparr>"

text \<open>
  A store in which one entity has been observed with values of two types: the boolean
  \<^verbatim>\<open>true\<close> and the numbers 1 and 2, three times each.
\<close>

definition mixed_store :: store where
  "mixed_store =
     \<lparr> entities =
         [\<lparr> e_id = 1, e_filename = SText ''a.js'', e_entity_name = SText ''f_param_x'',
            e_entity_type = SText ''function_declaration_parameter'',
            e_offset_position = SInt 11, e_line_number = SInt 1, e_column_number = SInt 11,
            e_first_seen = 1, e_last_seen = 2, e_observation_count = 9 \<rparr>],
       value_observations =
         [\<lparr> v_entity_id = 1, v_value_type = ''boolean'', v_literal_value = ''true'',
            v_value_hash = ''b326b506'', v_context = SText ''function_declaration_parameter_in_f'',
            v_observation_count = 3, v_first_seen = 1, v_last_seen = 2,
            v_source_location = SText ''1:11'' \<rparr>,
          \<lparr> v_entity_id = 1, v_value_type = ''number'', v_literal_value = ''1'',
            v_value_hash = ''c4ca4238'', v_context = SText ''function_declaration_parameter_in_f'',
            v_observation_count = 3, v_first_seen = 1, v_last_seen = 2,
            v_source_location = SText ''1:11'' \<rparr>,
          \<lparr> v_entity_id = 1, v_value_type = ''number'', v_literal_value = ''2'',
            v_value_hash = ''c81e728d'', v_context = SText ''function_declaration_parameter_in_f'',
            v_observation_count = 3, v_first_seen = 1, v_last_seen = 2,
            v_source_location = SText ''1:11'' \<rparr>],
       string_literals = [], object_shapes = [], hof_relationships = [],
       next_entity_id = 2 \<rparr>"
















text \<open>
  A record of the wire format: the tuple \<^verbatim>\<open>[filename, offset, values, metadata]\<close> with a
  non-empty file name, an integer offset, a list of pairs \<^verbatim>\<open>[value, provenance]\<close> whose
  provenance is null or a pair, and a metadata object (or none) whose known keys, where
  present, hold a string (\<^verbatim>\<open>functionName\<close>, \<^verbatim>\<open>context\<close>, \<^verbatim>\<open>calleeName\<close>) or a number
  (\<^verbatim>\<open>lineNumber\<close>, \<^verbatim>\<open>columnNumber\<close>, \<^verbatim>\<open>calleeArgIndex\<close>) or null.
\<close>

fun str_or_null :: "jsval \<Rightarrow> bool" where
  "str_or_null (Str s) = True"
| "str_or_null Null = True"
| "str_or_null Undefined = True"
| "str_or_null v = False"

fun num_or_null :: "jsval \<Rightarrow> bool" where
  "num_or_null (Num n) = True"
| "num_or_null Null = True"
| "num_or_null Undefined = True"
| "num_or_null v = False"

fun num_or_absent :: "jsval \<Rightarrow> bool" where
  "num_or_absent (Num n) = True"
| "num_or_absent Undefined = True"
| "num_or_absent v = False"

definition wf_metadata :: "jsval \<Rightarrow> bool" where
  "wf_metadata m =
     ((case m of Obj kvs \<Rightarrow> True | Null \<Rightarrow> True | Undefined \<Rightarrow> True | _ \<Rightarrow> False)
      \<and> str_or_null (js_get m ''functionName'')
      \<and> num_or_null (js_get m ''lineNumber'')
      \<and> num_or_null (js_get m ''columnNumber'')
      \<and> str_or_null (js_get m ''context'')
      \<and> str_or_null (js_get m ''calleeName'')
      \<and> num_or_absent (js_get m ''calleeArgIndex''))"

fun wf_provenance :: "jsval \<Rightarrow> bool" where
  "wf_provenance Null = True"
| "wf_provenance (Arr [Str f, Num off]) = True"
| "wf_provenance v = False"

fun wf_pair :: "jsval \<Rightarrow> bool" where
  "wf_pair (Arr [v, prov]) = wf_provenance prov"
| "wf_pair v = False"

definition wf_record :: "jsval \<Rightarrow> bool" where
  "wf_record entry =
     (case entry of
        Arr tuple \<Rightarrow>
          length tuple = 4
          \<and> (case tuple ! 0 of Str f \<Rightarrow> f \<noteq> [] | _ \<Rightarrow> False)
          \<and> (case tuple ! 1 of Num off \<Rightarrow> True | _ \<Rightarrow> False)
          \<and> (case tuple ! 2 of Arr elems \<Rightarrow> list_all wf_pair elems | _ \<Rightarrow> False)
          \<and> wf_metadata (tuple ! 3)
      | _ \<Rightarrow> False)"

text \<open>The records of the examples.\<close>

definition status_record :: jsval where
  "status_record =
     Arr [Str ''a.js'', Num 10, Arr [Arr [Str ''success'', Null]],
          Obj [(''functionName'', Str ''setStatus''), (''context'', Str ''parameter''),
               (''lineNumber'', Num 3), (''columnNumber'', Num 7)]]"

definition broken_record :: jsval where
  "broken_record = Arr [Str ''b.js'', Num 20, Num 5, Obj []]"

definition null_value_record :: jsval where
  "null_value_record = Arr [Str ''c.js'', Num 30, Arr [Arr [Null, Null]], Obj []]"

definition renamed_record :: jsval where
  "renamed_record = Arr [Str ''a.js'', Num 10, Arr [], Obj [(''functionName'', Str ''setStatus'')]]"

text \<open>A record for the same entity that reports line 4 and column 0.\<close>

definition column_zero_record :: jsval where
  "column_zero_record =
     Arr [Str ''a.js'', Num 10, Arr [],
          Obj [(''functionName'', Str ''setStatus''), (''context'', Str ''parameter''),
               (''lineNumber'', Num 4), (''columnNumber'', Num 0)]]"


text \<open>
  The parts of a record of the wire format, as \<^verbatim>\<open>processTypeData\<close> reads them: the
  metadata values after \<^verbatim>\<open>|| null\<close> (or \<^verbatim>\<open>|| 'unknown'\<close>), the list of value pairs,
  and the upsert of the record's entity, which gives the entity's id.
\<close>

definition bound :: "jsval \<Rightarrow> sqlval" where
  "bound v = (case bind v of Inr x \<Rightarrow> x | Inl e \<Rightarrow> SNull)"

definition rec_functionName :: "jsval \<Rightarrow> jsval" where
  "rec_functionName entry = js_or (js_get (js_index entry 3) ''functionName'') Null"

definition rec_lineNumber :: "jsval \<Rightarrow> jsval" where
  "rec_lineNumber entry = js_or (js_get (js_index entry 3) ''lineNumber'') Null"

definition rec_columnNumber :: "jsval \<Rightarrow> jsval" where
  "rec_columnNumber entry = js_or (js_get (js_index entry 3) ''columnNumber'') Null"

definition rec_context :: "jsval \<Rightarrow> jsval" where
  "rec_context entry = js_or (js_get (js_index entry 3) ''context'') (Str ''unknown'')"

definition rec_values :: "jsval \<Rightarrow> jsval list" where
  "rec_values entry = (case js_index entry 2 of Arr elems \<Rightarrow> elems | _ \<Rightarrow> [])"

definition rec_entity :: "nat \<Rightarrow> jsval \<Rightarrow> store \<Rightarrow> nat \<times> store" where
  "rec_entity now entry s = upsertEntity now (bound (js_index entry 0)) (bound (js_index entry 1)) s"

text \<open>A pair of the value list is observed when its value is neither null nor undefined.\<close>

definition observed :: "jsval \<Rightarrow> bool" where
  "observed elem = (js_index elem 0 \<noteq> Undefined \<and> js_index elem 0 \<noteq> Null)"

text \<open>
  The literal text of a value, and the upsert of one value observation as the specification
  words it: keyed by the entity, the first 8 characters of the MD5 digest of the literal
  text, and the context.
\<close>

definition literal_of :: "host \<Rightarrow> jsval \<Rightarrow> string" where
  "literal_of h v = (case serializeLiteralValue h v (getValueType v) of Some t \<Rightarrow> t | None \<Rightarrow> [])"

definition upsert_observation ::
  "host \<Rightarrow> nat \<Rightarrow> nat \<Rightarrow> sqlval \<Rightarrow> jsval \<Rightarrow> sqlval \<Rightarrow> value_row list \<Rightarrow> value_row list" where
  "upsert_observation h now entity c v loc rows =
     on_conflict_update (value_conflict entity (take 8 (md5_hex h (literal_of h v))) c)
       (\<lambda>r. r\<lparr> v_observation_count := v_observation_count r + 1, v_last_seen := now \<rparr>)
       \<lparr> v_entity_id = entity, v_value_type = getValueType v, v_literal_value = literal_of h v,
         v_value_hash = take 8 (md5_hex h (literal_of h v)), v_context = c,
         v_observation_count = 1, v_first_seen = now, v_last_seen = now,
         v_source_location = loc \<rparr>
       rows"


text \<open>The two steps between the entity upsert and the values, as changes of the store.\<close>

definition rec_update :: "jsval \<Rightarrow> nat \<Rightarrow> store \<Rightarrow> store" where
  "rec_update entry i s =
     snd (updateEntityStep (rec_functionName entry) (rec_lineNumber entry)
            (rec_columnNumber entry) (rec_context entry) i s)"

definition rec_hof :: "nat \<Rightarrow> jsval \<Rightarrow> nat \<Rightarrow> store \<Rightarrow> store" where
  "rec_hof now entry i s = snd (hofStep now (js_index entry 3) i (bound (js_index entry 0)) s)"

text \<open>A metadata value as the record supplies it.\<close>

definition supplied :: "jsval \<Rightarrow> string \<Rightarrow> jsval" where
  "supplied entry key = js_get (js_index entry 3) key"

section \<open>Replaying a batch: the rows a batch touches\<close>

text \<open>
  A sequence of upserts on one table is summarised by the list of keys it touches, in
  order. \<open>fresh ks seen\<close> lists the keys of \<open>ks\<close> that are neither in \<open>seen\<close> nor earlier
  in \<open>ks\<close>: the rows the sequence appends. \<open>touched key cnt ks rows rows'\<close> says that
  \<open>rows'\<close> is \<open>rows\<close> after upserts at the keys \<open>ks\<close>: the old rows keep their place and
  key, one row is appended for each fresh key, and the count of every row has grown by
  the number of times its key occurs in \<open>ks\<close>.
\<close>

fun fresh :: "'k list \<Rightarrow> 'k set \<Rightarrow> 'k list" where
  "fresh [] seen = []"
| "fresh (k # ks) seen = (if k \<in> seen then fresh ks seen else k # fresh ks (insert k seen))"






















section \<open>Object shapes: the signature is canonical\<close>









lemma object_shapes_upsertValueObservation [simp]:
  "object_shapes (upsertValueObservation now i t l hh c loc s) = object_shapes s"
  by (simp add: upsertValueObservation_def)

lemma object_shapes_upsertStringLiteral [simp]:
  "object_shapes (upsertStringLiteral now i str c s) = object_shapes s"
  by (simp add: upsertStringLiteral_def)







section \<open>Properties of the query engine\<close>

lemma group_by_member:
  "(k, rows) \<in> set (group_by key xs) \<Longrightarrow>
     rows \<noteq> [] \<and> set rows \<subseteq> set xs \<and> (\<forall>x \<in> set rows. key x = k)"
proof (induction key xs rule: group_by.induct)
  case (1 key)
  then show ?case by simp
next
  case (2 key x xs)
  from "2.prems" have "(k, rows) = (key x, x # filter (\<lambda>y. key y = key x) xs)
      \<or> (k, rows) \<in> set (group_by key (filter (\<lambda>y. key y \<noteq> key x) xs))"
    by simp
  then show ?case
  proof
    assume "(k, rows) = (key x, x # filter (\<lambda>y. key y = key x) xs)"
    then show ?thesis by auto
  next
    assume "(k, rows) \<in> set (group_by key (filter (\<lambda>y. key y \<noteq> key x) xs))"
    from "2.IH"[OF this] show ?thesis by auto
  qed
qed

lemma group_by_keys_set: "fst ` set (group_by key xs) = key ` set xs"
proof (induction key xs rule: group_by.induct)
  case (1 key)
  then show ?case by simp
next
  case (2 key x xs)
  have "key ` set (x # xs) = insert (key x) (key ` set (filter (\<lambda>y. key y \<noteq> key x) xs))"
    by auto
  with "2.IH" show ?case by simp
qed

lemma group_by_keys_distinct: "distinct (map fst (group_by key xs))"
proof (induction key xs rule: group_by.induct)
  case (1 key)
  then show ?case by simp
next
  case (2 key x xs)
  have "key x \<notin> fst ` set (group_by key (filter (\<lambda>y. key y \<noteq> key x) xs))"
    unfolding group_by_keys_set by auto
  with "2.IH" show ?case by simp
qed

lemma length_group_by: "length (group_by key xs) = card (key ` set xs)"
proof -
  have "length (group_by key xs) = length (map fst (group_by key xs))" by simp
  also have "\<dots> = card (set (map fst (group_by key xs)))"
    using group_by_keys_distinct by (metis distinct_card)
  also have "\<dots> = card (key ` set xs)" by (simp add: group_by_keys_set)
  finally show ?thesis .
qed

lemma length_concat_singletons:
  "(\<forall>g \<in> set gs. length (F g) = 1) \<Longrightarrow> length (concat (map F gs)) = length gs"
  by (induction gs) auto

lemma length_concat_groups:
  "length (concat (map (\<lambda>(k, rows). case rows of [] \<Rightarrow> [] | first # rest \<Rightarrow> [f first rows])
                      (group_by key xs))) = length (group_by key xs)"
proof (rule length_concat_singletons, rule ballI)
  fix g assume gin: "g \<in> set (group_by key xs)"
  obtain k rows where g: "g = (k, rows)" by (cases g)
  with gin have m: "(k, rows) \<in> set (group_by key xs)" by simp
  from group_by_member[OF m] obtain first rest where "rows = first # rest"
    by (cases rows) auto
  with g show "length (case g of (k, rows) \<Rightarrow> (case rows of [] \<Rightarrow> [] | first # rest \<Rightarrow> [f first rows])) = 1"
    by simp
qed

subsection \<open>Annotation candidates\<close>

text \<open>
  Every group of the annotation query holds one value type, so the branch of the
  \<^verbatim>\<open>CASE\<close> that tests for more than one is never taken.
\<close>

lemma annotation_group_not_union:
  assumes "r \<in> set (annotation_groups s)"
  shows "a_annotation_type r \<noteq> ''UNION_CANDIDATE''"
proof -
  from assms obtain k first rest
    where g: "(k, first # rest) \<in> set (group_by (\<lambda>(e, v). (e_id e, v_value_type v)) (annotation_join s))"
      and r: "r = annotation_row_of first (first # rest)"
    by (auto simp: annotation_groups_def split: list.splits)
  from group_by_member[OF g] have same: "\<forall>x \<in> set (first # rest). v_value_type (snd x) = snd k"
    by (auto simp: case_prod_beta)
  then have eq: "set (map (\<lambda>(e, v). v_value_type v) (first # rest)) = {snd k}"
    by (auto simp: case_prod_beta)
  have "card (set (map (\<lambda>(e, v). v_value_type v) (first # rest))) = 1"
    unfolding eq by simp
  then have "length (remdups (map (\<lambda>(e, v). v_value_type v) (first # rest))) = 1"
    by (simp only: length_remdups_card_conv)
  with r show ?thesis
    by (simp add: annotation_row_of_def annotation_case_def Let_def)
qed

lemma annotation_rows_never_union:
  "filter (\<lambda>r. a_annotation_type r = ''UNION_CANDIDATE'') (annotation_rows s m) = []"
proof -
  have "\<forall>r \<in> set (annotation_rows s m). a_annotation_type r \<noteq> ''UNION_CANDIDATE''"
    using annotation_group_not_union by (auto simp: annotation_rows_def)
  then show ?thesis by (simp add: filter_empty_conv)
qed

text \<open>
  The rows that the statement describes for a store in which one entity has observations
  of two value types (a boolean and two numbers): one row per value type, the numbers as a
  literal type and the boolean as a simple type.
\<close>

lemma annotation_rows_mixed_types:
  "map (\<lambda>r. (a_value_type r, a_unique_values r, a_example_values r, a_annotation_type r))
       (annotation_rows mixed_store 1)
     = [(''number'', 2, ''1 | 2'', ''LITERAL_TYPE_CANDIDATE''), (''boolean'', 1, ''true'', ''SIMPLE_TYPE'')]"
  by code_simp

text \<open>
  Claim C6. The statement of \<^verbatim>\<open>getAnnotationCandidates\<close> has a
  \<^verbatim>\<open>GROUP_CONCAT(DISTINCT ..., ' | ')\<close> with two arguments, which the store refuses when
  the statement is prepared: for every store and every threshold the method throws, and
  so it returns no row, classified as a union or otherwise, for a store in which an entity
  has observations of more than one value type.
\<close>

theorem annotation_candidates_refused:
  "getAnnotationCandidates s minObservations = Inl SqliteError"
  by (simp add: getAnnotationCandidates_def prepare_def annotation_aggregates_def)

subsection \<open>Function calls\<close>

lemma length_sql_limit: "0 \<le> lim \<Longrightarrow> length (sql_limit lim off xs) \<le> nat lim"
  by (simp add: sql_limit_def Let_def)

lemma length_call_rows:
  "length (call_rows like fp fnm s)
     = card ((\<lambda>(e, vo). (e_id e, v_value_type vo, v_literal_value vo)) ` set (calls_join like fp fnm s))"
  by (simp add: call_rows_def length_concat_groups length_group_by)

lemma card_entities_le_groups:
  "card ((\<lambda>(e, vo). e_id e) ` set j)
     \<le> card ((\<lambda>(e, vo). (e_id e, v_value_type vo, v_literal_value vo)) ` set j)"
proof -
  have "(\<lambda>(e, vo). e_id e) ` set j
      = fst ` ((\<lambda>(e, vo). (e_id e, v_value_type vo, v_literal_value vo)) ` set j)"
    by (force simp: image_iff)
  then show ?thesis by (simp add: card_image_le)
qed

text \<open>
  Claim C10. The total of the pagination is the number of distinct entities among the
  matching rows of the join, and \<^verbatim>\<open>hasMore\<close> compares offset plus page size with that
  number; the page is cut out of the rows grouped by entity, value type and literal value,
  of which there are at least as many as entities, and holds at most \<^verbatim>\<open>pageSize\<close> rows
  (for a page size that is not negative).
\<close>

theorem function_calls_total_counts_entities:
  "p_total (page (getFunctionCalls like s fp fnm offset pageSize))
       = card ((\<lambda>(e, vo). e_id e) ` set (calls_join like fp fnm s))
   \<and> p_hasMore (page (getFunctionCalls like s fp fnm offset pageSize))
       = (offset + pageSize < int (card ((\<lambda>(e, vo). e_id e) ` set (calls_join like fp fnm s))))
   \<and> calls (getFunctionCalls like s fp fnm offset pageSize)
       = sql_limit pageSize offset (call_rows like fp fnm s)
   \<and> length (call_rows like fp fnm s)
       = card ((\<lambda>(e, vo). (e_id e, v_value_type vo, v_literal_value vo)) ` set (calls_join like fp fnm s))
   \<and> p_total (page (getFunctionCalls like s fp fnm offset pageSize)) \<le> length (call_rows like fp fnm s)
   \<and> (0 \<le> pageSize \<longrightarrow> length (calls (getFunctionCalls like s fp fnm offset pageSize)) \<le> nat pageSize)"
proof -
  have t: "p_total (page (getFunctionCalls like s fp fnm offset pageSize))
       = card ((\<lambda>(e, vo). e_id e) ` set (calls_join like fp fnm s))"
    by (simp add: getFunctionCalls_def Let_def length_remdups_card_conv)
  have h: "p_hasMore (page (getFunctionCalls like s fp fnm offset pageSize))
       = (offset + pageSize < int (card ((\<lambda>(e, vo). e_id e) ` set (calls_join like fp fnm s))))"
    by (simp add: getFunctionCalls_def Let_def length_remdups_card_conv)
  have c: "calls (getFunctionCalls like s fp fnm offset pageSize)
       = sql_limit pageSize offset (call_rows like fp fnm s)"
    by (simp add: getFunctionCalls_def Let_def)
  have l: "p_total (page (getFunctionCalls like s fp fnm offset pageSize)) \<le> length (call_rows like fp fnm s)"
    unfolding t length_call_rows by (rule card_entities_le_groups)
  have p: "0 \<le> pageSize \<longrightarrow> length (calls (getFunctionCalls like s fp fnm offset pageSize)) \<le> nat pageSize"
    unfolding c by (simp add: length_sql_limit)
  from t h c l p length_call_rows show ?thesis by blast
qed

text \<open>
  At the store with one entity and three distinct values, the first page of size 1 holds
  one of three rows while the total is 1, so \<^verbatim>\<open>hasMore\<close> is false.
\<close>

theorem function_calls_total_counts_entities_witness:
  "(0::int) \<le> 1
   \<and> length (calls (getFunctionCalls (\<lambda>p v. True) mixed_store None None 0 1)) \<le> nat 1
   \<and> length (call_rows (\<lambda>p v. True) None None mixed_store) = 3
   \<and> p_total (page (getFunctionCalls (\<lambda>p v. True) mixed_store None None 0 1)) = 1
   \<and> p_hasMore (page (getFunctionCalls (\<lambda>p v. True) mixed_store None None 0 1)) = False"
proof -
  have "length (calls (getFunctionCalls (\<lambda>p v. True) mixed_store None None 0 1)) \<le> nat 1"
    by (rule function_calls_total_counts_entities[of "\<lambda>p v. True" mixed_store None None 0 1,
          THEN conjunct2, THEN conjunct2, THEN conjunct2, THEN conjunct2, THEN conjunct2,
          rule_format]) simp
  moreover have "length (call_rows (\<lambda>p v. True) None None mixed_store) = 3"
    by code_simp
  moreover have "p_total (page (getFunctionCalls (\<lambda>p v. True) mixed_store None None 0 1)) = 1"
    by code_simp
  moreover have "p_hasMore (page (getFunctionCalls (\<lambda>p v. True) mixed_store None None 0 1)) = False"
    by code_simp
  ultimately show ?thesis by simp
qed
section \<open>Properties of the instrumenter\<close>






































section \<open>Properties of the collector\<close>

lemma value_observations_upsertStringLiteral [simp]:
  "value_observations (upsertStringLiteral now i str c s) = value_observations s"
  by (simp add: upsertStringLiteral_def)

lemma value_observations_upsertObjectShape [simp]:
  "value_observations (upsertObjectShape now i sg n t s) = value_observations s"
  by (simp add: upsertObjectShape_def)

lemma entities_upsertValueObservation [simp]:
  "entities (upsertValueObservation now i t l hh c loc s) = entities s"
  by (simp add: upsertValueObservation_def)

lemma entities_upsertStringLiteral [simp]:
  "entities (upsertStringLiteral now i str c s) = entities s"
  by (simp add: upsertStringLiteral_def)

lemma entities_upsertObjectShape [simp]:
  "entities (upsertObjectShape now i sg n t s) = entities s"
  by (simp add: upsertObjectShape_def)

lemma serialize_defined:
  "v \<noteq> Undefined \<Longrightarrow> serializeLiteralValue h v (getValueType v) = Some (literal_of h v)"
  by (cases v) (auto simp: literal_of_def serializeLiteralValue_def JSON_stringify_def)

lemma processLiteralValue_ok:
  assumes "v \<noteq> Undefined" and "bind (enhancedContext fn ctx) = Inr c" and "bind loc = Inr l"
  shows "fst (processLiteralValue h now i v loc fn ctx s) = None"
    and "value_observations (snd (processLiteralValue h now i v loc fn ctx s))
           = upsert_observation h now i c v l (value_observations s)"
    and "entities (snd (processLiteralValue h now i v loc fn ctx s)) = entities s"
    and "hof_relationships (snd (processLiteralValue h now i v loc fn ctx s)) = hof_relationships s"
    and "next_entity_id (snd (processLiteralValue h now i v loc fn ctx s)) = next_entity_id s"
  using assms serialize_defined[OF assms(1), of h]
  by (auto simp: processLiteralValue_def Let_def upsert_observation_def hashValue_def
        upsertValueObservation_def upsertStringLiteral_def upsertObjectShape_def
      split: jsval.splits option.splits)

lemma bind_sourceLocationStr: "\<exists>l. bind (sourceLocationStr prov ln col) = Inr l"
  by (simp add: sourceLocationStr_def)

lemma wf_pair_cases:
  assumes "wf_pair e"
  obtains v prov where "e = Arr [v, prov]" and "wf_provenance prov"
  using assms by (elim wf_pair.elims) auto

lemma processValues_wf:
  assumes "list_all wf_pair elems" and c: "bind (enhancedContext fn ctx) = Inr c"
  shows "fst (processValues h now i fn ln col ctx elems s) = None
       \<and> value_observations (snd (processValues h now i fn ln col ctx elems s))
           = fold (\<lambda>elem. upsert_observation h now i c (js_index elem 0)
                              (bound (sourceLocationStr (js_index elem 1) ln col)))
                  (filter observed elems) (value_observations s)
       \<and> entities (snd (processValues h now i fn ln col ctx elems s)) = entities s
       \<and> hof_relationships (snd (processValues h now i fn ln col ctx elems s)) = hof_relationships s
       \<and> next_entity_id (snd (processValues h now i fn ln col ctx elems s)) = next_entity_id s"
  using assms(1)
proof (induction elems arbitrary: s)
  case Nil
  then show ?case by simp
next
  case (Cons e elems)
  from Cons.prems have we: "wf_pair e" and wr: "list_all wf_pair elems" by simp_all
  from we obtain v prov where e: "e = Arr [v, prov]" by (rule wf_pair_cases)
  obtain l where l: "bind (sourceLocationStr prov ln col) = Inr l"
    using bind_sourceLocationStr by blast
  show ?case
  proof (cases "v \<noteq> Undefined \<and> v \<noteq> Null")
    case True
    then have v: "v \<noteq> Undefined" by simp
    let ?s1 = "snd (processLiteralValue h now i v (sourceLocationStr prov ln col) fn ctx s)"
    from processLiteralValue_ok[OF v c l, of h now i s]
    have p: "fst (processLiteralValue h now i v (sourceLocationStr prov ln col) fn ctx s) = None"
      "value_observations ?s1 = upsert_observation h now i c v l (value_observations s)"
      "entities ?s1 = entities s" "hof_relationships ?s1 = hof_relationships s"
      "next_entity_id ?s1 = next_entity_id s"
      by simp_all
    have step: "processValues h now i fn ln col ctx (e # elems) s
        = processValues h now i fn ln col ctx elems ?s1"
      using True p(1) e
      by (cases "processLiteralValue h now i v (sourceLocationStr prov ln col) fn ctx s")
         (simp add: and_then_def)
    have ob: "observed e" using True e by (simp add: observed_def)
    have lb: "bound (sourceLocationStr (js_index e 1) ln col) = l"
      using l e by (simp add: bound_def)
    show ?thesis
      unfolding step using Cons.IH[OF wr, of ?s1] p ob lb e by simp
  next
    case False
    then have step: "processValues h now i fn ln col ctx (e # elems) s
        = processValues h now i fn ln col ctx elems s"
      using e by (auto simp: and_then_def)
    have ob: "\<not> observed e" using False e by (auto simp: observed_def)
    show ?thesis
      unfolding step using Cons.IH[OF wr, of s] ob by simp
  qed
qed

lemma wf_record_cases:
  assumes "wf_record entry"
  obtains f off elems m where "entry = Arr [Str f, Num off, Arr elems, m]"
    and "f \<noteq> []" and "list_all wf_pair elems" and "wf_metadata m"
proof -
  from assms obtain tuple where t: "entry = Arr tuple" "length tuple = 4"
    by (auto simp: wf_record_def split: jsval.splits)
  then obtain a b c d where abcd: "tuple = [a, b, c, d]"
    by (cases tuple; cases "tl tuple"; cases "tl (tl tuple)"; cases "tl (tl (tl tuple))") auto
  from assms t abcd obtain f off elems where "a = Str f" "f \<noteq> []" "b = Num off" "c = Arr elems"
    "list_all wf_pair elems" "wf_metadata d"
    by (auto simp: wf_record_def split: jsval.splits)
  with t abcd that show thesis by blast
qed

lemma bind_str_or_null:
  assumes "str_or_null v"
  shows "bind (js_or v Null) = Inr (bound (js_or v Null))"
  using assms by (cases v) (auto simp: js_or_def bound_def)

lemma bind_num_or_null:
  assumes "num_or_null v"
  shows "bind (js_or v Null) = Inr (bound (js_or v Null))"
  using assms by (cases v) (auto simp: js_or_def bound_def)

lemma bind_context:
  assumes "str_or_null v"
  shows "bind (js_or v (Str ''unknown'')) = Inr (bound (js_or v (Str ''unknown'')))"
  using assms by (cases v) (auto simp: js_or_def bound_def)

lemma bind_enhancedContext:
  assumes "str_or_null v" and "str_or_null w"
  shows "bind (enhancedContext (js_or w Null) (js_or v (Str ''unknown'')))
           = Inr (bound (enhancedContext (js_or w Null) (js_or v (Str ''unknown''))))"
  using assms by (cases v; cases w) (auto simp: js_or_def bound_def enhancedContext_def)

lemma parsed_field:
  assumes "wf_metadata m"
  shows "(if truthy m \<and> typeof m = ''object'' then js_or (js_get m k) d else d) = js_or (js_get m k) d"
  using assms by (cases m) (auto simp: wf_metadata_def js_or_def)

lemma hof_binds:
  assumes "wf_metadata m" and "truthy (js_get m ''calleeName'')"
    and "js_get m ''calleeArgIndex'' \<noteq> Undefined"
  shows "\<exists>c n. bind (js_get m ''calleeName'') = Inr (SText c) \<and> bind (js_get m ''calleeArgIndex'') = Inr (SInt n)"
proof -
  from assms(1) have a: "str_or_null (js_get m ''calleeName'')" and b: "num_or_absent (js_get m ''calleeArgIndex'')"
    by (simp_all add: wf_metadata_def)
  from a assms(2) obtain c where "js_get m ''calleeName'' = Str c"
    by (cases "js_get m ''calleeName''") auto
  moreover from b assms(3) obtain n where "js_get m ''calleeArgIndex'' = Num n"
    by (cases "js_get m ''calleeArgIndex''") auto
  ultimately show ?thesis by simp
qed

lemma processEntry_wf:
  assumes "wf_record entry"
  shows "processEntry h now entry s =
     (None, snd (processValues h now (fst (rec_entity now entry s))
                   (rec_functionName entry) (rec_lineNumber entry) (rec_columnNumber entry)
                   (rec_context entry) (rec_values entry)
                   (rec_hof now entry (fst (rec_entity now entry s))
                      (rec_update entry (fst (rec_entity now entry s)) (snd (rec_entity now entry s))))))"
proof -
  from assms obtain f off elems m where e: "entry = Arr [Str f, Num off, Arr elems, m]"
    and f: "f \<noteq> []" and we: "list_all wf_pair elems" and wm: "wf_metadata m"
    by (rule wf_record_cases)
  from wm have sf: "str_or_null (js_get m ''functionName'')" and sl: "num_or_null (js_get m ''lineNumber'')"
    and sc: "num_or_null (js_get m ''columnNumber'')" and sx: "str_or_null (js_get m ''context'')"
    by (simp_all add: wf_metadata_def)
  let ?fn = "js_or (js_get m ''functionName'') Null"
  let ?ln = "js_or (js_get m ''lineNumber'') Null"
  let ?col = "js_or (js_get m ''columnNumber'') Null"
  let ?ctx = "js_or (js_get m ''context'') (Str ''unknown'')"
  obtain i s1 where u: "upsertEntity now (SText f) (SInt off) s = (i, s1)"
    by (cases "upsertEntity now (SText f) (SInt off) s")
  have re: "rec_entity now entry s = (i, s1)"
    using u e by (simp add: rec_entity_def bound_def)
  have names: "rec_functionName entry = ?fn" "rec_lineNumber entry = ?ln"
    "rec_columnNumber entry = ?col" "rec_context entry = ?ctx" "rec_values entry = elems"
    using e by (simp_all add: rec_functionName_def rec_lineNumber_def rec_columnNumber_def
        rec_context_def rec_values_def)
  let ?s2 = "rec_update entry i s1"
  let ?s3 = "rec_hof now entry i ?s2"
  have upd: "updateEntityStep ?fn ?ln ?col ?ctx i s1 = (None, ?s2)"
    using bind_str_or_null[OF sf] bind_num_or_null[OF sl] bind_num_or_null[OF sc] bind_context[OF sx]
    by (simp add: rec_update_def names updateEntityStep_def)
  have hof: "hofStep now m i (SText f) ?s2 = (None, ?s3)"
  proof (cases "truthy m \<and> truthy (js_get m ''calleeName'') \<and> js_get m ''calleeArgIndex'' \<noteq> Undefined")
    case True
    with hof_binds[OF wm] obtain c n where b: "bind (js_get m ''calleeName'') = Inr (SText c)"
      "bind (js_get m ''calleeArgIndex'') = Inr (SInt n)" by blast
    then show ?thesis
      using True e by (simp add: rec_hof_def hofStep_def bound_def upsertHofRelationship_def)
  next
    case False
    then show ?thesis using e by (auto simp: rec_hof_def hofStep_def bound_def)
  qed
  have vals: "fst (processValues h now i ?fn ?ln ?col ?ctx elems ?s3) = None"
    using processValues_wf[OF we bind_enhancedContext[OF sx sf]] by blast
  have "processEntry h now entry s = processValues h now i ?fn ?ln ?col ?ctx elems ?s3"
    unfolding processEntry_def
    using e f u upd hof
    by (simp add: entry_field_def Let_def parsed_field[OF wm] and_then_def)
  with vals re names show ?thesis
    by (cases "processValues h now i ?fn ?ln ?col ?ctx elems ?s3") simp
qed

lemma tables_updateEntity [simp]:
  "value_observations (updateEntity n l c t i s) = value_observations s"
  "string_literals (updateEntity n l c t i s) = string_literals s"
  "object_shapes (updateEntity n l c t i s) = object_shapes s"
  "hof_relationships (updateEntity n l c t i s) = hof_relationships s"
  "next_entity_id (updateEntity n l c t i s) = next_entity_id s"
  by (simp_all add: updateEntity_def)

lemma tables_upsertEntity [simp]:
  "value_observations (snd (upsertEntity now f off s)) = value_observations s"
  "string_literals (snd (upsertEntity now f off s)) = string_literals s"
  "object_shapes (snd (upsertEntity now f off s)) = object_shapes s"
  "hof_relationships (snd (upsertEntity now f off s)) = hof_relationships s"
  by (simp_all add: upsertEntity_def)

lemma tables_updateEntityStep [simp]:
  "value_observations (snd (updateEntityStep fn ln col ctx i s)) = value_observations s"
  "string_literals (snd (updateEntityStep fn ln col ctx i s)) = string_literals s"
  "object_shapes (snd (updateEntityStep fn ln col ctx i s)) = object_shapes s"
  "hof_relationships (snd (updateEntityStep fn ln col ctx i s)) = hof_relationships s"
  "next_entity_id (snd (updateEntityStep fn ln col ctx i s)) = next_entity_id s"
  by (auto simp: updateEntityStep_def split: sum.splits)

lemma tables_hofStep [simp]:
  "value_observations (snd (hofStep now m i f s)) = value_observations s"
  "string_literals (snd (hofStep now m i f s)) = string_literals s"
  "object_shapes (snd (hofStep now m i f s)) = object_shapes s"
  "entities (snd (hofStep now m i f s)) = entities s"
  "next_entity_id (snd (hofStep now m i f s)) = next_entity_id s"
  by (auto simp: hofStep_def upsertHofRelationship_def split: sum.splits)

lemma processEntry_wf_values:
  assumes "wf_record entry"
  shows "value_observations (snd (processEntry h now entry s))
       = fold (\<lambda>elem. upsert_observation h now (fst (rec_entity now entry s))
                  (bound (enhancedContext (rec_functionName entry) (rec_context entry)))
                  (js_index elem 0)
                  (bound (sourceLocationStr (js_index elem 1) (rec_lineNumber entry) (rec_columnNumber entry))))
              (filter observed (rec_values entry)) (value_observations s)"
proof -
  from assms obtain f off elems m where e: "entry = Arr [Str f, Num off, Arr elems, m]"
    and we: "list_all wf_pair elems" and wm: "wf_metadata m"
    by (rule wf_record_cases)
  from wm have sf: "str_or_null (js_get m ''functionName'')" and sx: "str_or_null (js_get m ''context'')"
    by (simp_all add: wf_metadata_def)
  have c: "bind (enhancedContext (rec_functionName entry) (rec_context entry))
         = Inr (bound (enhancedContext (rec_functionName entry) (rec_context entry)))"
    using bind_enhancedContext[OF sx sf] e by (simp add: rec_functionName_def rec_context_def)
  have v: "rec_values entry = elems" using e by (simp add: rec_values_def)
  show ?thesis
    unfolding processEntry_wf[OF assms] v
    using processValues_wf[OF we c]
    by (simp add: rec_hof_def rec_update_def rec_entity_def)
qed

lemma processEntry_wf_entities:
  assumes "wf_record entry"
  shows "entities (snd (processEntry h now entry s))
       = entities (rec_update entry (fst (rec_entity now entry s)) (snd (rec_entity now entry s)))"
proof -
  from assms obtain f off elems m where e: "entry = Arr [Str f, Num off, Arr elems, m]"
    and we: "list_all wf_pair elems" and wm: "wf_metadata m"
    by (rule wf_record_cases)
  from wm have sf: "str_or_null (js_get m ''functionName'')" and sx: "str_or_null (js_get m ''context'')"
    by (simp_all add: wf_metadata_def)
  have c: "bind (enhancedContext (rec_functionName entry) (rec_context entry))
         = Inr (bound (enhancedContext (rec_functionName entry) (rec_context entry)))"
    using bind_enhancedContext[OF sx sf] e by (simp add: rec_functionName_def rec_context_def)
  have v: "rec_values entry = elems" using e by (simp add: rec_values_def)
  show ?thesis
    unfolding processEntry_wf[OF assms] v
    using processValues_wf[OF we c]
    by (simp add: rec_hof_def)
qed

text \<open>
  Claim C2 does not hold as it is stated. In the batch of a good record and a record whose
  value list is the number 5, processing the second record throws; the batch succeeds all
  the same, the first record is applied with its value, and the entity that the second
  record wrote before it threw is kept.
\<close>

theorem failing_record_counterexample:
  "fst (processEntry example_host 5 broken_record
          (snd (processEntry example_host 5 status_record empty_store))) = Some TypeError
   \<and> fst (processTypeData example_host 5 (Arr [status_record, broken_record]) empty_store) = None
   \<and> map e_filename (entities (snd (processTypeData example_host 5
          (Arr [status_record, broken_record]) empty_store))) = [SText ''a.js'', SText ''b.js'']
   \<and> map v_literal_value (value_observations (snd (processTypeData example_host 5
          (Arr [status_record, broken_record]) empty_store))) = [''success'']"
  by code_simp

text \<open>
  Claim C2 as amended. A batch that cannot be iterated fails as a whole and leaves the store
  as it was. Every other batch succeeds, also when the processing of a record throws: the
  records are processed in order, each from the store that the one before it left, and what
  a record wrote before it threw is kept.
\<close>

theorem batch_transaction:
  "(js_iter entries = None \<longrightarrow> processTypeData h now entries s = (Some TypeError, s))
   \<and> (\<forall>es. js_iter entries = Some es \<longrightarrow>
          fst (processTypeData h now entries s) = None
        \<and> snd (processTypeData h now entries s)
            = fold (\<lambda>entry st. snd (processEntry h now entry st)) es s)"
  by (simp add: processTypeData_def)

theorem batch_transaction_witness:
  "js_iter (Arr [status_record, broken_record]) = Some [status_record, broken_record]
   \<and> fst (processTypeData example_host 5 (Arr [status_record, broken_record]) empty_store) = None
   \<and> snd (processTypeData example_host 5 (Arr [status_record, broken_record]) empty_store)
       = snd (processEntry example_host 5 broken_record
               (snd (processEntry example_host 5 status_record empty_store)))
   \<and> js_iter (Num 5) = None
   \<and> processTypeData example_host 5 (Num 5) empty_store = (Some TypeError, empty_store)"
proof -
  have i: "js_iter (Arr [status_record, broken_record]) = Some [status_record, broken_record]"
    by simp
  have n: "js_iter (Num 5) = None" by simp
  from batch_transaction[of "Arr [status_record, broken_record]" example_host 5 empty_store,
         THEN conjunct2, rule_format, OF i]
  have a: "fst (processTypeData example_host 5 (Arr [status_record, broken_record]) empty_store) = None"
    and b: "snd (processTypeData example_host 5 (Arr [status_record, broken_record]) empty_store)
       = snd (processEntry example_host 5 broken_record
               (snd (processEntry example_host 5 status_record empty_store)))"
    by simp_all
  from batch_transaction[of "Num 5" example_host 5 empty_store, THEN conjunct1, rule_format, OF n]
  have c: "processTypeData example_host 5 (Num 5) empty_store = (Some TypeError, empty_store)" .
  from i n a b c show ?thesis by blast
qed

text \<open>
  Claim C3 does not hold as it is stated: a record whose only value is null is ingested (its
  entity is written) and no value observation is upserted for the value.
\<close>

theorem null_value_counterexample:
  "fst (processTypeData example_host 5 (Arr [null_value_record]) empty_store) = None
   \<and> map e_filename (entities (snd (processTypeData example_host 5 (Arr [null_value_record]) empty_store)))
       = [SText ''c.js'']
   \<and> value_observations (snd (processTypeData example_host 5 (Arr [null_value_record]) empty_store)) = []"
  by code_simp

text \<open>
  Claim C3 as amended. For every record of the wire format and every value of its value
  list that is neither null nor undefined, the collector upserts exactly one value
  observation, keyed by the entity of the record, the first 8 characters of the MD5 digest
  of the literal value, and the context; values that are null or undefined are passed over.
  The context is the context of the record followed by \<^verbatim>\<open>_in_\<close> and the function name
  when the record has a function name, and the bare context otherwise.
\<close>

theorem value_observation_per_value:
  assumes "wf_record entry"
  shows "fst (processEntry h now entry s) = None
   \<and> value_observations (snd (processEntry h now entry s))
       = fold (\<lambda>elem. upsert_observation h now (fst (rec_entity now entry s))
                  (bound (enhancedContext (rec_functionName entry) (rec_context entry)))
                  (js_index elem 0)
                  (bound (sourceLocationStr (js_index elem 1) (rec_lineNumber entry) (rec_columnNumber entry))))
              (filter observed (rec_values entry)) (value_observations s)
   \<and> (\<forall>f c. rec_functionName entry = Str f \<and> rec_context entry = Str c \<longrightarrow>
          bound (enhancedContext (rec_functionName entry) (rec_context entry)) = SText (c @ ''_in_'' @ f))
   \<and> (rec_functionName entry = Null \<longrightarrow>
          bound (enhancedContext (rec_functionName entry) (rec_context entry)) = bound (rec_context entry))"
proof (intro conjI allI impI)
  show "fst (processEntry h now entry s) = None"
    by (simp add: processEntry_wf[OF assms])
  show "value_observations (snd (processEntry h now entry s))
       = fold (\<lambda>elem. upsert_observation h now (fst (rec_entity now entry s))
                  (bound (enhancedContext (rec_functionName entry) (rec_context entry)))
                  (js_index elem 0)
                  (bound (sourceLocationStr (js_index elem 1) (rec_lineNumber entry) (rec_columnNumber entry))))
              (filter observed (rec_values entry)) (value_observations s)"
    by (rule processEntry_wf_values[OF assms])
next
  fix f c assume a: "rec_functionName entry = Str f \<and> rec_context entry = Str c"
  then have "truthy (Str f)" by (auto simp: rec_functionName_def js_or_def split: if_splits)
  with a show "bound (enhancedContext (rec_functionName entry) (rec_context entry)) = SText (c @ ''_in_'' @ f)"
    by (simp add: enhancedContext_def bound_def)
next
  assume "rec_functionName entry = Null"
  then show "bound (enhancedContext (rec_functionName entry) (rec_context entry)) = bound (rec_context entry)"
    by (simp add: enhancedContext_def)
qed



theorem value_observation_per_value_witness:
  "wf_record status_record
   \<and> fst (processEntry example_host 5 status_record empty_store) = None
   \<and> rec_functionName status_record = Str ''setStatus''
   \<and> rec_context status_record = Str ''parameter''
   \<and> map (\<lambda>r. (v_entity_id r, v_value_hash r, v_context r, v_observation_count r))
         (value_observations (snd (processEntry example_host 5 status_record empty_store)))
       = [(1, ''success0'', SText ''parameter_in_setStatus'', 1)]"
proof -
  have w: "wf_record status_record" by code_simp
  have f: "rec_functionName status_record = Str ''setStatus''" by code_simp
  have c: "rec_context status_record = Str ''parameter''" by code_simp
  note t = value_observation_per_value[OF w, of example_host 5 empty_store]
  have k: "bound (enhancedContext (rec_functionName status_record) (rec_context status_record))
      = SText (''parameter'' @ ''_in_'' @ ''setStatus'')"
    using t f c by blast
  have "map (\<lambda>r. (v_entity_id r, v_value_hash r, v_context r, v_observation_count r))
         (fold (\<lambda>elem. upsert_observation example_host 5 (fst (rec_entity 5 status_record empty_store))
                  (SText (''parameter'' @ ''_in_'' @ ''setStatus''))
                  (js_index elem 0)
                  (bound (sourceLocationStr (js_index elem 1) (rec_lineNumber status_record)
                            (rec_columnNumber status_record))))
              (filter observed (rec_values status_record)) (value_observations empty_store))
       = [(1, ''success0'', SText ''parameter_in_setStatus'', 1)]"
    by code_simp
  with t k w f c show ?thesis by simp
qed

text \<open>
  Claim C7 does not hold as it is stated for the entity type: a record that names the
  function and supplies no context replaces the stored type \<^verbatim>\<open>parameter\<close> by
  \<^verbatim>\<open>unknown\<close>.
\<close>

theorem entity_type_counterexample:
  "map (\<lambda>r. (e_entity_name r, e_entity_type r))
       (entities (snd (processTypeData example_host 5 (Arr [status_record]) empty_store)))
     = [(SText ''setStatus'', SText ''parameter'')]
   \<and> supplied renamed_record ''context'' = Undefined
   \<and> map (\<lambda>r. (e_entity_name r, e_entity_type r))
       (entities (snd (processTypeData example_host 6 (Arr [renamed_record])
          (snd (processTypeData example_host 5 (Arr [status_record]) empty_store)))))
     = [(SText ''setStatus'', SText ''unknown'')]"
  by code_simp

lemma truthy_js_or_Null: "truthy (js_or v Null) = truthy v"
  by (simp add: js_or_def)

lemma js_or_Null_neq: "(js_or v Null \<noteq> Null) = truthy v"
  by (cases v) (auto simp: js_or_def)

lemma updateEntityStep_wf:
  assumes "wf_record entry"
  shows "rec_update entry i s =
     (if truthy (rec_functionName entry) \<or> rec_lineNumber entry \<noteq> Null
      then updateEntity (bound (rec_functionName entry)) (bound (rec_lineNumber entry))
             (bound (rec_columnNumber entry)) (bound (rec_context entry)) i s
      else s)"
proof -
  from assms obtain f off elems m where e: "entry = Arr [Str f, Num off, Arr elems, m]"
    and wm: "wf_metadata m"
    by (rule wf_record_cases)
  from wm have sf: "str_or_null (js_get m ''functionName'')" and sl: "num_or_null (js_get m ''lineNumber'')"
    and sc: "num_or_null (js_get m ''columnNumber'')" and sx: "str_or_null (js_get m ''context'')"
    by (simp_all add: wf_metadata_def)
  show ?thesis
    using bind_str_or_null[OF sf] bind_num_or_null[OF sl] bind_num_or_null[OF sc] bind_context[OF sx] e
    by (simp add: rec_update_def updateEntityStep_def rec_functionName_def rec_lineNumber_def
          rec_columnNumber_def rec_context_def)
qed

text \<open>
  Claim C7 as amended. A record of the wire format that supplies a truthy function name
  or line number sets the name, line number and column number of its entity to
  \<^verbatim>\<open>COALESCE(v || null, stored)\<close> for the supplied value \<open>v\<close>: to the supplied value
  when that is a non-empty string or a number other than 0, and to the stored value when
  the supplied value is null or absent, and also when it is the empty string or 0, which
  \<^verbatim>\<open>|| null\<close> turns into null. The entity type is always overwritten, with the context
  of the record or with \<^verbatim>\<open>unknown\<close> when the record supplies none. A record that
  supplies neither a truthy function name nor a truthy line number leaves the four columns
  as they are.
\<close>

theorem entity_metadata_update:
  assumes w: "wf_record entry"
  shows "entities (snd (processEntry h now entry s))
       = (if truthy (supplied entry ''functionName'') \<or> truthy (supplied entry ''lineNumber'')
          then map (\<lambda>r. if e_id r = fst (rec_entity now entry s)
                   then r\<lparr> e_entity_name :=
                             COALESCE (bound (js_or (supplied entry ''functionName'') Null)) (e_entity_name r),
                           e_line_number :=
                             COALESCE (bound (js_or (supplied entry ''lineNumber'') Null)) (e_line_number r),
                           e_column_number :=
                             COALESCE (bound (js_or (supplied entry ''columnNumber'') Null)) (e_column_number r),
                           e_entity_type := bound (js_or (supplied entry ''context'') (Str ''unknown'')) \<rparr>
                   else r)
             (entities (snd (rec_entity now entry s)))
          else entities (snd (rec_entity now entry s)))
   \<and> COALESCE (bound (js_or (Str x) Null)) old = (if x = [] then old else SText x)
   \<and> COALESCE (bound (js_or (Num n) Null)) old = (if n = 0 then old else SInt n)
   \<and> COALESCE (bound (js_or Null Null)) old = old
   \<and> COALESCE (bound (js_or Undefined Null)) old = old
   \<and> bound (js_or (Str x) (Str ''unknown'')) = (if x = [] then SText ''unknown'' else SText x)
   \<and> bound (js_or Null (Str ''unknown'')) = SText ''unknown''
   \<and> bound (js_or Undefined (Str ''unknown'')) = SText ''unknown''"
proof -
  have g: "(truthy (rec_functionName entry) \<or> rec_lineNumber entry \<noteq> Null)
         = (truthy (supplied entry ''functionName'') \<or> truthy (supplied entry ''lineNumber''))"
    by (simp add: rec_functionName_def rec_lineNumber_def supplied_def truthy_js_or_Null js_or_Null_neq)
  have e: "entities (snd (processEntry h now entry s))
      = entities (if truthy (supplied entry ''functionName'') \<or> truthy (supplied entry ''lineNumber'')
          then updateEntity (bound (js_or (supplied entry ''functionName'') Null))
                 (bound (js_or (supplied entry ''lineNumber'') Null))
                 (bound (js_or (supplied entry ''columnNumber'') Null))
                 (bound (js_or (supplied entry ''context'') (Str ''unknown'')))
                 (fst (rec_entity now entry s)) (snd (rec_entity now entry s))
          else snd (rec_entity now entry s))"
    unfolding processEntry_wf_entities[OF w] updateEntityStep_wf[OF w] g
    by (simp add: rec_functionName_def rec_lineNumber_def rec_columnNumber_def rec_context_def supplied_def)
  have first: "entities (snd (processEntry h now entry s))
       = (if truthy (supplied entry ''functionName'') \<or> truthy (supplied entry ''lineNumber'')
          then map (\<lambda>r. if e_id r = fst (rec_entity now entry s)
                   then r\<lparr> e_entity_name :=
                             COALESCE (bound (js_or (supplied entry ''functionName'') Null)) (e_entity_name r),
                           e_line_number :=
                             COALESCE (bound (js_or (supplied entry ''lineNumber'') Null)) (e_line_number r),
                           e_column_number :=
                             COALESCE (bound (js_or (supplied entry ''columnNumber'') Null)) (e_column_number r),
                           e_entity_type := bound (js_or (supplied entry ''context'') (Str ''unknown'')) \<rparr>
                   else r)
             (entities (snd (rec_entity now entry s)))
          else entities (snd (rec_entity now entry s)))"
    unfolding e by (simp add: updateEntity_def)
  have rest: "COALESCE (bound (js_or (Str x) Null)) old = (if x = [] then old else SText x)"
    "COALESCE (bound (js_or (Num n) Null)) old = (if n = 0 then old else SInt n)"
    "COALESCE (bound (js_or Null Null)) old = old"
    "COALESCE (bound (js_or Undefined Null)) old = old"
    "bound (js_or (Str x) (Str ''unknown'')) = (if x = [] then SText ''unknown'' else SText x)"
    "bound (js_or Null (Str ''unknown'')) = SText ''unknown''"
    "bound (js_or Undefined (Str ''unknown'')) = SText ''unknown''"
    by (simp_all add: COALESCE_def bound_def js_or_def)
  from first rest show ?thesis by (intro conjI)
qed

theorem entity_metadata_update_witness:
  "wf_record column_zero_record
   \<and> map (\<lambda>r. (e_id r, e_entity_name r, e_line_number r, e_column_number r, e_entity_type r))
         (entities (snd (processEntry example_host 5 status_record empty_store)))
       = [(1, SText ''setStatus'', SInt 3, SInt 7, SText ''parameter'')]
   \<and> supplied column_zero_record ''lineNumber'' = Num 4
   \<and> supplied column_zero_record ''columnNumber'' = Num 0
   \<and> map (\<lambda>r. (e_id r, e_entity_name r, e_line_number r, e_column_number r, e_entity_type r))
         (entities (snd (processEntry example_host 6 column_zero_record
            (snd (processEntry example_host 5 status_record empty_store)))))
       = [(1, SText ''setStatus'', SInt 4, SInt 7, SText ''parameter'')]"
proof -
  let ?s = "snd (processEntry example_host 5 status_record empty_store)"
  have w: "wf_record column_zero_record" by code_simp
  have a: "map (\<lambda>r. (e_id r, e_entity_name r, e_line_number r, e_column_number r, e_entity_type r))
         (entities ?s) = [(1, SText ''setStatus'', SInt 3, SInt 7, SText ''parameter'')]"
    by code_simp
  have b: "supplied column_zero_record ''lineNumber'' = Num 4"
    "supplied column_zero_record ''columnNumber'' = Num 0"
    by code_simp+
  note t = entity_metadata_update[OF w, of example_host 6 ?s, THEN conjunct1]
  have "map (\<lambda>r. (e_id r, e_entity_name r, e_line_number r, e_column_number r, e_entity_type r))
       (if truthy (supplied column_zero_record ''functionName'') \<or> truthy (supplied column_zero_record ''lineNumber'')
          then map (\<lambda>r. if e_id r = fst (rec_entity 6 column_zero_record ?s)
                   then r\<lparr> e_entity_name :=
                             COALESCE (bound (js_or (supplied column_zero_record ''functionName'') Null)) (e_entity_name r),
                           e_line_number :=
                             COALESCE (bound (js_or (supplied column_zero_record ''lineNumber'') Null)) (e_line_number r),
                           e_column_number :=
                             COALESCE (bound (js_or (supplied column_zero_record ''columnNumber'') Null)) (e_column_number r),
                           e_entity_type := bound (js_or (supplied column_zero_record ''context'') (Str ''unknown'')) \<rparr>
                   else r)
             (entities (snd (rec_entity 6 column_zero_record ?s)))
          else entities (snd (rec_entity 6 column_zero_record ?s)))
       = [(1, SText ''setStatus'', SInt 4, SInt 7, SText ''parameter'')]"
    by code_simp
  then have c: "map (\<lambda>r. (e_id r, e_entity_name r, e_line_number r, e_column_number r, e_entity_type r))
         (entities (snd (processEntry example_host 6 column_zero_record ?s)))
       = [(1, SText ''setStatus'', SInt 4, SInt 7, SText ''parameter'')]"
    unfolding t .
  from w a b c show ?thesis by (intro conjI)
qed


section \<open>Replaying a batch\<close>


lemma set_fresh: "set (fresh ks seen) = set ks - seen"
  by (induction ks arbitrary: seen) auto



lemma fresh_cong_set: "seen \<union> set ks' = seen' \<Longrightarrow> fresh ks (seen \<union> set (fresh ks' seen)) = fresh ks seen'"
  by (auto simp: set_fresh Un_Diff_cancel)




















lemma analyzeObjectShape_only_objects:
  "getValueType v \<noteq> ''object'' \<or> \<not> truthy v \<or> typeof v \<noteq> ''object'' \<Longrightarrow> analyzeObjectShape h v = None"
  by (cases v) (auto simp: analyzeObjectShape_def)






































end
